theory Spec2Isabelle
  imports Complex_Main "HOL-Library.Char_ord" "HOL-Library.List_Lexorder" "HOL-Library.Multiset"
begin

section \<open>Python values and exceptions\<close>

text \<open>
  A decoded JSON document, as \<^verbatim>\<open>response.json()\<close> hands it to the scraper. A Python
  dict is kept as an association list in insertion order; a lookup takes the first
  binding of a key. A string is the list of its code points (those below 256).
\<close>

datatype json =
    JNull
  | JBool bool
  | JNum rat
  | JStr string
  | JArr "json list"
  | JObj "(string \<times> json) list"

text \<open>
  The exceptions the scraper can meet. The first four are subclasses of
  \<^verbatim>\<open>requests.exceptions.RequestException\<close>; the next five are Python built-ins; the last
  is the one the worksheet library (openpyxl) raises for a text it cannot store.
\<close>

datatype exn =
    ConnectionError
  | Timeout
  | HTTPError nat
  | InvalidJSONError
  | AttributeError
  | TypeError
  | ValueError
  | OverflowError
  | KeyError string
  | IllegalCharacterError

fun is_RequestException :: "exn \<Rightarrow> bool" where
  "is_RequestException ConnectionError = True"
| "is_RequestException Timeout = True"
| "is_RequestException (HTTPError _) = True"
| "is_RequestException InvalidJSONError = True"
| "is_RequestException _ = False"

text \<open>Truth value of an object, as \<^verbatim>\<open>not data\<close> tests it.\<close>

fun truthy :: "json \<Rightarrow> bool" where
  "truthy JNull = False"
| "truthy (JBool b) = b"
| "truthy (JNum n) = (n \<noteq> 0)"
| "truthy (JStr s) = (s \<noteq> [])"
| "truthy (JArr xs) = (xs \<noteq> [])"
| "truthy (JObj kv) = (kv \<noteq> [])"

text \<open>\<^verbatim>\<open>needle in s\<close> for two strings: \<^verbatim>\<open>needle\<close> occurs as a contiguous part of \<^verbatim>\<open>s\<close>.\<close>

fun py_substring :: "string \<Rightarrow> string \<Rightarrow> bool" where
  "py_substring needle [] = (needle = [])"
| "py_substring needle (c # cs) = (take (length needle) (c # cs) = needle \<or> py_substring needle cs)"

text \<open>
  \<^verbatim>\<open>key in x\<close> for a string key: key membership for a dict, element equality for a list,
  substring for a string, and TypeError for the objects that are not containers.
\<close>

fun py_contains :: "string \<Rightarrow> json \<Rightarrow> exn + bool" where
  "py_contains k (JObj kv) = Inr (k \<in> set (map fst kv))"
| "py_contains k (JArr xs) = Inr (JStr k \<in> set xs)"
| "py_contains k (JStr s) = Inr (py_substring k s)"
| "py_contains k _ = Inl TypeError"

text \<open>\<^verbatim>\<open>x.get(key, default)\<close>: only a dict has the method.\<close>

fun py_get :: "json \<Rightarrow> string \<Rightarrow> json \<Rightarrow> exn + json" where
  "py_get (JObj kv) k d = Inr (case map_of kv k of None \<Rightarrow> d | Some v \<Rightarrow> v)"
| "py_get _ k d = Inl AttributeError"

text \<open>
  The sequence a \<^verbatim>\<open>for\<close> loop runs over: the elements of a list, the keys of a dict,
  the one-character strings of a string; the other objects are not iterable.
\<close>

fun py_iter :: "json \<Rightarrow> exn + json list" where
  "py_iter (JArr xs) = Inr xs"
| "py_iter (JObj kv) = Inr (map (\<lambda>(k, v). JStr k) kv)"
| "py_iter (JStr s) = Inr (map (\<lambda>c. JStr [c]) s)"
| "py_iter _ = Inl TypeError"

fun isinstance_dict :: "json \<Rightarrow> bool" where
  "isinstance_dict (JObj kv) = True"
| "isinstance_dict _ = False"

section \<open>The scraper\<close>

text \<open>
  The class \<^verbatim>\<open>ODESIScraper\<close> of \<^verbatim>\<open>odesi_scraper.py\<close>, method by method. The calls of the
  logger change nothing that a method returns or that the network sees, and are left out;
  so is the User-Agent header, which the session sends with every request.
\<close>

subsection \<open>Parser\<close>

text \<open>
  The dict built for one survey, with its five keys in insertion order. In the parser the
  values are JSON values (whatever the response held); in the spec's data model they are
  strings. The type of the values is the parameter \<open>'v\<close>.
\<close>

record 'v survey_record =
  Category :: 'v
  Series_Name :: 'v
  Year :: 'v
  Survey_Title :: 'v
  URI :: 'v

text \<open>
  A loop whose body appends to \<^verbatim>\<open>records\<close>: the bodies' records in order, or the first
  exception, which leaves the loop and the function.
\<close>

fun for_each :: "('a \<Rightarrow> exn + 'b list) \<Rightarrow> 'a list \<Rightarrow> exn + 'b list" where
  "for_each body [] = Inr []"
| "for_each body (x # xs) =
     (case body x of
        Inl e \<Rightarrow> Inl e
      | Inr ys \<Rightarrow> (case for_each body xs of Inl e \<Rightarrow> Inl e | Inr zs \<Rightarrow> Inr (ys @ zs)))"

text \<open>Body of \<^verbatim>\<open>for survey in surveys\<close>.\<close>

definition parse_survey :: "string \<Rightarrow> json \<Rightarrow> json \<Rightarrow> json \<Rightarrow> exn + json survey_record list" where
  "parse_survey category series_name year survey =
     (case py_get survey ''title'' (JStr '''') of
        Inl e \<Rightarrow> Inl e
      | Inr title \<Rightarrow>
     (case py_get survey ''uri'' (JStr '''') of
        Inl e \<Rightarrow> Inl e
      | Inr uri \<Rightarrow>
          Inr [\<lparr>Category = JStr category, Series_Name = series_name, Year = year,
                Survey_Title = title, URI = uri\<rparr>]))"

text \<open>Body of \<^verbatim>\<open>for year_data in years\<close>.\<close>

definition parse_year :: "string \<Rightarrow> json \<Rightarrow> json \<Rightarrow> exn + json survey_record list" where
  "parse_year category series_name year_data =
     (case py_get year_data ''year'' (JStr ''Unknown'') of
        Inl e \<Rightarrow> Inl e
      | Inr year \<Rightarrow>
     (case py_get year_data ''item'' (JArr []) of
        Inl e \<Rightarrow> Inl e
      | Inr surveys \<Rightarrow>
     (case py_iter surveys of
        Inl e \<Rightarrow> Inl e
      | Inr ss \<Rightarrow> for_each (parse_survey category series_name year) ss)))"

text \<open>Body of \<^verbatim>\<open>for series_item in items\<close>.\<close>

definition parse_series :: "string \<Rightarrow> json \<Rightarrow> exn + json survey_record list" where
  "parse_series category series_item =
     (case py_get series_item ''series'' (JStr ''Unknown'') of
        Inl e \<Rightarrow> Inl e
      | Inr series_name \<Rightarrow>
     (case py_get series_item ''years'' (JArr []) of
        Inl e \<Rightarrow> Inl e
      | Inr years \<Rightarrow>
     (case py_iter years of
        Inl e \<Rightarrow> Inl e
      | Inr ys \<Rightarrow> for_each (parse_year category series_name) ys)))"

definition parse_category_data :: "string \<Rightarrow> json \<Rightarrow> exn + json survey_record list" where
  "parse_category_data category data =
     (if \<not> truthy data then Inr []
      else case py_contains ''content'' data of
        Inl e \<Rightarrow> Inl e
      | Inr present \<Rightarrow>
     (if \<not> present then Inr []
      else case py_get data ''content'' (JObj []) of
        Inl e \<Rightarrow> Inl e
      | Inr content \<Rightarrow>
     (case py_get content ''datasets'' (JObj []) of
        Inl e \<Rightarrow> Inl e
      | Inr datasets \<Rightarrow>
     (if \<not> isinstance_dict datasets then Inr []
      else case py_get datasets ''items'' (JArr []) of
        Inl e \<Rightarrow> Inl e
      | Inr items \<Rightarrow>
     (case py_iter items of
        Inl e \<Rightarrow> Inl e
      | Inr its \<Rightarrow> for_each (parse_series category) its)))))"

subsection \<open>Fetcher\<close>

text \<open>
  \<^verbatim>\<open>urllib.parse.quote\<close> with its default \<^verbatim>\<open>safe='/'\<close>: letters, digits and \<^verbatim>\<open>_.-~/\<close> are kept,
  every other code point is UTF-8 encoded and each byte written as \<^verbatim>\<open>%XX\<close>.
\<close>

definition hex_digit :: "nat \<Rightarrow> char" where
  "hex_digit n = ''0123456789ABCDEF'' ! (n mod 16)"

definition percent_byte :: "nat \<Rightarrow> string" where
  "percent_byte b = [CHR ''%'', hex_digit (b div 16), hex_digit b]"

definition always_safe :: "char \<Rightarrow> bool" where
  "always_safe c =
     (let n = (of_char c :: nat)
      in (65 \<le> n \<and> n \<le> 90) \<or> (97 \<le> n \<and> n \<le> 122) \<or> (48 \<le> n \<and> n \<le> 57)
         \<or> c \<in> set ''_.-~/'')"

definition quote_char :: "char \<Rightarrow> string" where
  "quote_char c =
     (let n = (of_char c :: nat)
      in if always_safe c then [c]
         else if n < 128 then percent_byte n
         else percent_byte (192 + n div 64) @ percent_byte (128 + n mod 64))"

definition quote :: "string \<Rightarrow> string" where
  "quote s = concat (map quote_char s)"

definition BASE_URL :: string where
  "BASE_URL = ''https://odesi.ca/api/browse''"

definition CATEGORIES :: "string list" where
  "CATEGORIES =
     [''Agriculture'', ''Business and Financial'', ''Census of Population'',
      ''Communications and Information'', ''Consumer Surveys'', ''COVID-19'',
      ''Crime and Justice'', ''Demographics and Population'', ''Education'',
      ''Elections and Politics'', ''Geography'',
      ''Government Finances and Economic Indicators'', ''Health'',
      ''Labour and Employment'', ''Natural Resources and Environment'',
      ''Public Opinion Polls'', ''Social Surveys'', ''Trade'', ''Travel'']"

text \<open>
  What \<^verbatim>\<open>session.get\<close> returns: the status code, and what \<^verbatim>\<open>response.json()\<close> will do
  (return the decoded body, or raise).
\<close>

record response =
  status_code :: nat
  json_result :: "exn + json"

text \<open>
  The scraper object: its delay, and its session. The network is the world \<open>'w\<close>:
  \<^verbatim>\<open>session.get(url, timeout)\<close> raises or returns a response, and changes the world.
\<close>

record 'w ODESIScraper =
  delay :: real
  session_get :: "string \<Rightarrow> nat \<Rightarrow> 'w \<Rightarrow> (exn + response) \<times> 'w"

text \<open>The effects of a run, in order: the requests sent and the pauses made.\<close>

datatype event = HttpGet string nat | Sleep real

record 'w io =
  world :: 'w
  trace :: "event list"

text \<open>\<^verbatim>\<open>response.raise_for_status()\<close>: HTTPError for a 4xx or 5xx status.\<close>

definition raise_for_status :: "response \<Rightarrow> exn option" where
  "raise_for_status r =
     (if 400 \<le> status_code r \<and> status_code r < 600 then Some (HTTPError (status_code r))
      else None)"

text \<open>
  The \<^verbatim>\<open>except requests.exceptions.RequestException\<close> clause: such an exception becomes the
  empty dict, any other exception leaves the function.
\<close>

definition except_RequestException :: "exn \<Rightarrow> exn + json" where
  "except_RequestException e = (if is_RequestException e then Inr (JObj []) else Inl e)"

definition fetch_category_data ::
  "'w ODESIScraper \<Rightarrow> string \<Rightarrow> 'w io \<Rightarrow> (exn + json) \<times> 'w io" where
  "fetch_category_data self category s =
     (let url = BASE_URL @ ''?category='' @ quote category;
          (got, w) = session_get self url 30 (world s);
          s1 = \<lparr>world = w, trace = trace s @ [HttpGet url 30]\<rparr>
      in case got of
           Inl e \<Rightarrow> (except_RequestException e, s1)
         | Inr response \<Rightarrow>
             (case raise_for_status response of
                Some e \<Rightarrow> (except_RequestException e, s1)
              | None \<Rightarrow>
                  (case json_result response of
                     Inl e \<Rightarrow> (except_RequestException e, s1)
                   | Inr body \<Rightarrow> (Inr body, s1))))"

subsection \<open>Data frames\<close>

text \<open>
  A pandas DataFrame: the column labels, and the rows, each holding one cell per column.
  The frames of this program have distinct column labels.
\<close>

record 'c dataframe =
  columns :: "string list"
  rows :: "'c list list"

definition record_keys :: "string list" where
  "record_keys = [''Category'', ''Series_Name'', ''Year'', ''Survey_Title'', ''URI'']"

definition record_values :: "'v survey_record \<Rightarrow> 'v list" where
  "record_values r = [Category r, Series_Name r, Year r, Survey_Title r, URI r]"

text \<open>
  \<^verbatim>\<open>pd.DataFrame(records)\<close> for a list of dicts that all have the five keys and whose
  values are all strings: one row per dict, the columns in key order, every cell the
  string it was; the empty list gives a frame with no column.
\<close>

definition DataFrame :: "string survey_record list \<Rightarrow> string dataframe" where
  "DataFrame records =
     \<lparr>columns = (if records = [] then [] else record_keys),
      rows = map record_values records\<rparr>"

text \<open>
  \<^verbatim>\<open>pd.DataFrame(all_records)\<close> for the records of the parser, whose values are JSON
  values. When every value of every record is a string, it is the frame above. Otherwise
  pandas chooses a type for each column and converts the column's values to it (an integer
  beside a null becomes a float, a null becomes NaN): such a frame is kept as the list of
  records it was built from, and its cells are not modelled.
\<close>

fun string_value :: "json \<Rightarrow> string option" where
  "string_value (JStr s) = Some s"
| "string_value _ = None"

definition string_record :: "json survey_record \<Rightarrow> string survey_record option" where
  "string_record r =
     (case (string_value (Category r), string_value (Series_Name r), string_value (Year r),
            string_value (Survey_Title r), string_value (URI r)) of
        (Some c, Some sn, Some y, Some t, Some u) \<Rightarrow>
          Some \<lparr>Category = c, Series_Name = sn, Year = y, Survey_Title = t, URI = u\<rparr>
      | _ \<Rightarrow> None)"

datatype dataset = Frame "string dataframe" | Inferred "json survey_record list"

definition pd_DataFrame :: "json survey_record list \<Rightarrow> dataset" where
  "pd_DataFrame records =
     (case those (map string_record records) of
        Some rs \<Rightarrow> Frame (DataFrame rs)
      | None \<Rightarrow> Inferred records)"

text \<open>\<^verbatim>\<open>pd.DataFrame()\<close>.\<close>

definition DataFrame_empty :: "'c dataframe" where
  "DataFrame_empty = \<lparr>columns = [], rows = []\<rparr>"

text \<open>\<^verbatim>\<open>df.empty\<close>: some axis has length 0.\<close>

definition df_empty :: "'c dataframe \<Rightarrow> bool" where
  "df_empty df = (columns df = [] \<or> rows df = [])"

fun col_index :: "string \<Rightarrow> string list \<Rightarrow> nat option" where
  "col_index name [] = None"
| "col_index name (c # cs) =
     (if c = name then Some 0 else map_option Suc (col_index name cs))"

text \<open>Positions of several labels; KeyError for the first label that is no column.\<close>

fun col_indices :: "string list \<Rightarrow> string list \<Rightarrow> exn + nat list" where
  "col_indices [] cs = Inr []"
| "col_indices (name # names) cs =
     (case col_index name cs of
        None \<Rightarrow> Inl (KeyError name)
      | Some i \<Rightarrow> (case col_indices names cs of Inl e \<Rightarrow> Inl e | Inr js \<Rightarrow> Inr (i # js)))"

text \<open>\<^verbatim>\<open>df[name]\<close>.\<close>

definition get_column :: "'c dataframe \<Rightarrow> string \<Rightarrow> exn + 'c list" where
  "get_column df name =
     (case col_index name (columns df) of
        None \<Rightarrow> Inl (KeyError name)
      | Some i \<Rightarrow> Inr (map (\<lambda>r. r ! i) (rows df)))"

text \<open>
  \<^verbatim>\<open>df[name] = values\<close>, for as many values as rows: an existing column is overwritten, a
  new one is added last. The frame itself is changed; the model returns the changed frame.
\<close>

definition set_column :: "'c dataframe \<Rightarrow> string \<Rightarrow> 'c list \<Rightarrow> 'c dataframe" where
  "set_column df name vals =
     (case col_index name (columns df) of
        Some i \<Rightarrow> df\<lparr>rows := map (\<lambda>(r, v). r[i := v]) (zip (rows df) vals)\<rparr>
      | None \<Rightarrow>
          \<lparr>columns = columns df @ [name],
           rows = map (\<lambda>(r, v). r @ [v]) (zip (rows df) vals)\<rparr>)"

text \<open>The cells of a row at the given positions.\<close>

definition cells_at :: "nat list \<Rightarrow> 'c list \<Rightarrow> 'c list" where
  "cells_at js r = map (\<lambda>j. r ! j) js"

text \<open>
  \<^verbatim>\<open>duplicated(keep=False)\<close> on the rows' keys: a row is marked when its key occurs at
  another position, before it or after it.
\<close>

fun mark_duplicated :: "'k list \<Rightarrow> 'k list \<Rightarrow> bool list" where
  "mark_duplicated seen [] = []"
| "mark_duplicated seen (k # ks) =
     (k \<in> set seen \<or> k \<in> set ks) # mark_duplicated (k # seen) ks"

definition duplicated :: "'c dataframe \<Rightarrow> string list \<Rightarrow> exn + bool list" where
  "duplicated df labels =
     (case col_indices labels (columns df) of
        Inl e \<Rightarrow> Inl e
      | Inr js \<Rightarrow> Inr (mark_duplicated [] (map (cells_at js) (rows df))))"

text \<open>\<^verbatim>\<open>df[mask]\<close>: a new frame with the rows whose mark is True.\<close>

definition select_rows :: "'c dataframe \<Rightarrow> bool list \<Rightarrow> 'c dataframe" where
  "select_rows df marks = df\<lparr>rows := map fst (filter snd (zip (rows df) marks))\<rparr>"

text \<open>
  \<^verbatim>\<open>sort_values(by)\<close> for several labels: a new frame, the rows in ascending order of
  their cells at those labels, compared label by label; rows with equal keys keep their
  order. Strings compare by code points.
\<close>

definition sort_values :: "('c::linorder) dataframe \<Rightarrow> string list \<Rightarrow> exn + 'c dataframe" where
  "sort_values df labels =
     (case col_indices labels (columns df) of
        Inl e \<Rightarrow> Inl e
      | Inr js \<Rightarrow> Inr (df\<lparr>rows := sort_key (cells_at js) (rows df)\<rparr>))"

text \<open>Removing position \<open>i\<close> of a list.\<close>

definition remove_nth :: "nat \<Rightarrow> 'a list \<Rightarrow> 'a list" where
  "remove_nth i xs = take i xs @ drop (Suc i) xs"

text \<open>\<^verbatim>\<open>df.drop(columns=[name])\<close>: a new frame without the column.\<close>

definition drop_column :: "'c dataframe \<Rightarrow> string \<Rightarrow> exn + 'c dataframe" where
  "drop_column df name =
     (case col_index name (columns df) of
        None \<Rightarrow> Inl (KeyError name)
      | Some i \<Rightarrow>
          Inr \<lparr>columns = remove_nth i (columns df), rows = map (remove_nth i) (rows df)\<rparr>)"

subsection \<open>Aggregator\<close>

text \<open>
  \<^verbatim>\<open>time.sleep(secs)\<close>: ValueError for a negative length, OverflowError for a length that
  does not fit the clock (more than 2^63 - 1 nanoseconds), a pause otherwise. The length is
  taken as a real number of seconds; how a float is rounded at these bounds is left out.
\<close>

definition time_sleep :: "real \<Rightarrow> 'w io \<Rightarrow> (exn + unit) \<times> 'w io" where
  "time_sleep secs s =
     (if secs < 0 then (Inl ValueError, s)
      else if 9223372036854775807 < secs * 1000000000 then (Inl OverflowError, s)
      else (Inr (), s\<lparr>trace := trace s @ [Sleep secs]\<rparr>))"

text \<open>
  The loop \<^verbatim>\<open>for i, category in enumerate(categories, 1)\<close>: \<open>n\<close> is \<^verbatim>\<open>len(categories)\<close>,
  \<open>i\<close> the number of the category at the head of the remaining list. An exception of
  the fetcher, the parser or the pause leaves the loop.
\<close>

fun scrape_loop ::
  "'w ODESIScraper \<Rightarrow> nat \<Rightarrow> nat \<Rightarrow> string list \<Rightarrow> json survey_record list \<Rightarrow> 'w io
     \<Rightarrow> (exn + json survey_record list) \<times> 'w io" where
  "scrape_loop self n i [] all_records s = (Inr all_records, s)"
| "scrape_loop self n i (category # rest) all_records s =
     (case fetch_category_data self category s of
        (Inl e, s1) \<Rightarrow> (Inl e, s1)
      | (Inr data, s1) \<Rightarrow>
          (case parse_category_data category data of
             Inl e \<Rightarrow> (Inl e, s1)
           | Inr records \<Rightarrow>
               (if i < n then
                  (case time_sleep (delay self) s1 of
                     (Inl e, s2) \<Rightarrow> (Inl e, s2)
                   | (Inr u, s2) \<Rightarrow>
                       scrape_loop self n (Suc i) rest (all_records @ records) s2)
                else scrape_loop self n (Suc i) rest (all_records @ records) s1)))"

definition scrape_all_categories ::
  "'w ODESIScraper \<Rightarrow> string list option \<Rightarrow> 'w io \<Rightarrow> (exn + dataset) \<times> 'w io" where
  "scrape_all_categories self categories s =
     (let cats = (case categories of None \<Rightarrow> CATEGORIES | Some cs \<Rightarrow> cs)
      in case scrape_loop self (length cats) 1 cats [] s of
           (Inl e, s') \<Rightarrow> (Inl e, s')
         | (Inr all_records, s') \<Rightarrow> (Inr (pd_DataFrame all_records), s'))"

subsection \<open>Duplicate detector\<close>

text \<open>
  The detector and the exporter work on frames whose cells are strings, the Survey Records
  of the data model. \<^verbatim>\<open>str.lower\<close> and \<^verbatim>\<open>str.strip\<close> on code points below 256: the
  capital letters are A to Z and the code points 192 to 222 except 215; white space is 9
  to 13, 28 to 32, 133 and 160.
\<close>

definition lower_char :: "char \<Rightarrow> char" where
  "lower_char c =
     (let n = (of_char c :: nat)
      in if (65 \<le> n \<and> n \<le> 90) \<or> (192 \<le> n \<and> n \<le> 222 \<and> n \<noteq> 215)
         then char_of (n + 32) else c)"

definition str_lower :: "string \<Rightarrow> string" where
  "str_lower s = map lower_char s"

definition isspace :: "char \<Rightarrow> bool" where
  "isspace c =
     (let n = (of_char c :: nat)
      in (9 \<le> n \<and> n \<le> 13) \<or> (28 \<le> n \<and> n \<le> 32) \<or> n = 133 \<or> n = 160)"

definition str_strip :: "string \<Rightarrow> string" where
  "str_strip s = rev (dropWhile isspace (rev (dropWhile isspace s)))"

text \<open>
  The result is the returned frame, or the exception, together with the frame \<^verbatim>\<open>df\<close> as
  the call leaves it: the assignment of the \<^verbatim>\<open>Title_Normalized\<close> column changes \<^verbatim>\<open>df\<close>
  itself, the selection, the sort and the drop each build a new frame.
\<close>

definition find_duplicates ::
  "string dataframe \<Rightarrow> (exn + string dataframe) \<times> string dataframe" where
  "find_duplicates df =
     (if df_empty df then (Inr DataFrame_empty, df)
      else case get_column df ''Survey_Title'' of
        Inl e \<Rightarrow> (Inl e, df)
      | Inr titles \<Rightarrow>
          (let df1 = set_column df ''Title_Normalized'' (map str_strip (map str_lower titles))
           in case duplicated df1 [''Title_Normalized'', ''Series_Name'', ''Year''] of
                Inl e \<Rightarrow> (Inl e, df1)
              | Inr marks \<Rightarrow>
                  (case sort_values (select_rows df1 marks)
                          [''Series_Name'', ''Year'', ''Survey_Title''] of
                     Inl e \<Rightarrow> (Inl e, df1)
                   | Inr duplicates \<Rightarrow>
                       (case drop_column duplicates ''Title_Normalized'' of
                          Inl e \<Rightarrow> (Inl e, df1)
                        | Inr result \<Rightarrow> (Inr result, df1)))))"

subsection \<open>Exporter\<close>

text \<open>
  A worksheet as a table: its name, the header row and the rows below it. A cell holds a
  text, a count, or a formula: the worksheet library stores as a formula every text of
  two or more characters that begins with the equals sign. The index columns of a summary
  are part of the table: each row starts with its group's labels. A header without a
  label is a header row without a cell.
\<close>

datatype cell = Text string | Number nat | Formula string

record sheet =
  sheet_name :: string
  header :: "cell list"
  data_rows :: "cell list list"

text \<open>
  What the worksheet library does with a text: it keeps the first 32767 characters, and
  raises IllegalCharacterError when one of them is a control character other than tab,
  line feed and carriage return (the code points 0 to 8, 11, 12 and 14 to 31).
\<close>

definition illegal_character :: "char \<Rightarrow> bool" where
  "illegal_character c =
     (let n = (of_char c :: nat)
      in n \<le> 8 \<or> n = 11 \<or> n = 12 \<or> (14 \<le> n \<and> n \<le> 31))"

definition check_string :: "string \<Rightarrow> exn + string" where
  "check_string v =
     (let t = take 32767 v
      in if list_ex illegal_character t then Inl IllegalCharacterError else Inr t)"

text \<open>
  Assigning a value to a cell. The tables of the exporter hold texts and counts only; a
  formula among them would be kept.
\<close>

fun write_cell :: "cell \<Rightarrow> exn + cell" where
  "write_cell (Text v) =
     (case check_string v of
        Inl e \<Rightarrow> Inl e
      | Inr t \<Rightarrow> Inr (if 1 < length t \<and> hd t = CHR ''='' then Formula t else Text t))"
| "write_cell (Number n) = Inr (Number n)"
| "write_cell (Formula v) = Inr (Formula v)"

text \<open>Writing one value after the other: the values as written, or the first exception.\<close>

fun write_all :: "('a \<Rightarrow> exn + 'b) \<Rightarrow> 'a list \<Rightarrow> exn + 'b list" where
  "write_all f [] = Inr []"
| "write_all f (x # xs) =
     (case f x of
        Inl e \<Rightarrow> Inl e
      | Inr y \<Rightarrow> (case write_all f xs of Inl e \<Rightarrow> Inl e | Inr ys \<Rightarrow> Inr (y # ys)))"

text \<open>
  Writing a table into the workbook: pandas raises ValueError for more than 1048576 rows
  or more than 16384 columns, then the header and the rows are written cell by cell. The
  result is the sheet as the workbook holds it.
\<close>

definition write_sheet :: "sheet \<Rightarrow> exn + sheet" where
  "write_sheet sh =
     (if 1048576 < length (data_rows sh) \<or> 16384 < length (header sh) then Inl ValueError
      else case write_all write_cell (header sh) of
        Inl e \<Rightarrow> Inl e
      | Inr h \<Rightarrow>
          (case write_all (write_all write_cell) (data_rows sh) of
             Inl e \<Rightarrow> Inl e
           | Inr b \<Rightarrow> Inr \<lparr>sheet_name = sheet_name sh, header = h, data_rows = b\<rparr>))"

text \<open>\<^verbatim>\<open>df.to_excel(writer, sheet_name=name, index=False)\<close>.\<close>

definition to_excel :: "string dataframe \<Rightarrow> string \<Rightarrow> exn + sheet" where
  "to_excel df name =
     write_sheet \<lparr>sheet_name = name, header = map Text (columns df),
                  data_rows = map (map Text) (rows df)\<rparr>"

text \<open>
  \<^verbatim>\<open>groupby\<close>: the distinct keys in ascending order, and for a key the rows that have it,
  in frame order.
\<close>

definition group_keys :: "nat list \<Rightarrow> ('c::linorder) list list \<Rightarrow> 'c list list" where
  "group_keys js rs = sort (remdups (map (cells_at js) rs))"

definition group_rows :: "nat list \<Rightarrow> 'c list list \<Rightarrow> 'c list \<Rightarrow> 'c list list" where
  "group_rows js rs k = filter (\<lambda>r. cells_at js r = k) rs"

text \<open>The aggregations \<^verbatim>\<open>nunique\<close>, \<^verbatim>\<open>count\<close>, \<^verbatim>\<open>min\<close> and \<^verbatim>\<open>max\<close> of a group's values.\<close>

definition agg_nunique :: "'c list \<Rightarrow> nat" where
  "agg_nunique vs = length (remdups vs)"

definition agg_count :: "'c list \<Rightarrow> nat" where
  "agg_count vs = length vs"

fun agg_min :: "('c::linorder) list \<Rightarrow> 'c" where
  "agg_min (v # vs) = fold min vs v"

fun agg_max :: "('c::linorder) list \<Rightarrow> 'c" where
  "agg_max (v # vs) = fold max vs v"

text \<open>The table of the sheet \<^verbatim>\<open>Category_Summary\<close>, before it is written.\<close>

definition category_summary :: "string dataframe \<Rightarrow> exn + sheet" where
  "category_summary df =
     (case col_indices [''Category''] (columns df) of
        Inl e \<Rightarrow> Inl e
      | Inr js \<Rightarrow>
     (case col_indices [''Series_Name'', ''Survey_Title''] (columns df) of
        Inl e \<Rightarrow> Inl e
      | Inr ab \<Rightarrow>
          Inr \<lparr>sheet_name = ''Category_Summary'',
               header = map Text [''Category'', ''Unique_Series'', ''Total_Surveys''],
               data_rows = map (\<lambda>k. map Text k @
                                 [Number (agg_nunique (map (\<lambda>r. r ! (ab ! 0)) (group_rows js (rows df) k))),
                                  Number (agg_count (map (\<lambda>r. r ! (ab ! 1)) (group_rows js (rows df) k)))])
                          (group_keys js (rows df))\<rparr>))"

text \<open>The table of the sheet \<^verbatim>\<open>Series_Summary\<close>, before it is written.\<close>

definition series_summary :: "string dataframe \<Rightarrow> exn + sheet" where
  "series_summary df =
     (case col_indices [''Category'', ''Series_Name''] (columns df) of
        Inl e \<Rightarrow> Inl e
      | Inr js \<Rightarrow>
     (case col_indices [''Survey_Title'', ''Year''] (columns df) of
        Inl e \<Rightarrow> Inl e
      | Inr ab \<Rightarrow>
          Inr \<lparr>sheet_name = ''Series_Summary'',
               header = map Text [''Category'', ''Series_Name'', ''Survey_Count'', ''First_Year'',
                                  ''Last_Year''],
               data_rows = map (\<lambda>k. map Text k @
                                 [Number (agg_count (map (\<lambda>r. r ! (ab ! 0)) (group_rows js (rows df) k))),
                                  Text (agg_min (map (\<lambda>r. r ! (ab ! 1)) (group_rows js (rows df) k))),
                                  Text (agg_max (map (\<lambda>r. r ! (ab ! 1)) (group_rows js (rows df) k)))])
                          (group_keys js (rows df))\<rparr>))"

text \<open>
  The result is the workbook, as the list of its sheets in the order they were written, or
  the exception, together with the frame \<^verbatim>\<open>df\<close> as the call leaves it. What is left of the
  file when an exception leaves the method is not modelled.
\<close>

definition export_to_excel :: "string dataframe \<Rightarrow> (exn + sheet list) \<times> string dataframe" where
  "export_to_excel df =
     (case to_excel df ''All_Data'' of
        Inl e \<Rightarrow> (Inl e, df)
      | Inr all_data \<Rightarrow>
     (if df_empty df then (Inr [all_data], df)
      else case category_summary df of
        Inl e \<Rightarrow> (Inl e, df)
      | Inr category_table \<Rightarrow>
     (case write_sheet category_table of
        Inl e \<Rightarrow> (Inl e, df)
      | Inr cs \<Rightarrow>
     (case series_summary df of
        Inl e \<Rightarrow> (Inl e, df)
      | Inr series_table \<Rightarrow>
     (case write_sheet series_table of
        Inl e \<Rightarrow> (Inl e, df)
      | Inr ss \<Rightarrow>
     (case find_duplicates df of
        (Inl e, df1) \<Rightarrow> (Inl e, df1)
      | (Inr duplicates, df1) \<Rightarrow>
          (if \<not> df_empty duplicates
           then (case to_excel duplicates ''Potential_Duplicates'' of
                   Inl e \<Rightarrow> (Inl e, df1)
                 | Inr dup \<Rightarrow> (Inr [all_data, cs, ss, dup], df1))
           else (Inr [all_data, cs, ss], df1))))))))"

section \<open>Notions of the specification\<close>

text \<open>
  The definitions of this section do not come from the code. They say what the
  specification's sentences speak of, so that the theorems can compare the code with them.
\<close>

subsection \<open>The nesting of a response\<close>

text \<open>The value under a key of a mapping, if the object is a mapping and has the key.\<close>

definition field :: "string \<Rightarrow> json \<Rightarrow> json option" where
  "field k x = (case x of JObj kv \<Rightarrow> map_of kv k | _ \<Rightarrow> None)"

definition field_or :: "string \<Rightarrow> json \<Rightarrow> json \<Rightarrow> json" where
  "field_or k d x = (case field k x of None \<Rightarrow> d | Some v \<Rightarrow> v)"

text \<open>The entries of a sequence; no entries for anything else.\<close>

definition elems :: "json \<Rightarrow> json list" where
  "elems x = (case x of JArr xs \<Rightarrow> xs | _ \<Rightarrow> [])"

definition list_of_mappings :: "json \<Rightarrow> bool" where
  "list_of_mappings x = (case x of JArr xs \<Rightarrow> list_all isinstance_dict xs | _ \<Rightarrow> False)"

text \<open>
  A response whose keys may be missing at any level, but where each value that is present
  on the path content, datasets, items, years, item has the type the path expects: content
  a mapping; items, years and item sequences of mappings. A datasets value that is no
  mapping is allowed: it ends the path.
\<close>

definition year_typed :: "json \<Rightarrow> bool" where
  "year_typed y =
     (isinstance_dict y \<and> (case field ''item'' y of None \<Rightarrow> True | Some v \<Rightarrow> list_of_mappings v))"

definition series_typed :: "json \<Rightarrow> bool" where
  "series_typed it =
     (isinstance_dict it \<and>
      (case field ''years'' it of
         None \<Rightarrow> True
       | Some v \<Rightarrow> (case v of JArr ys \<Rightarrow> list_all year_typed ys | _ \<Rightarrow> False)))"

definition datasets_typed :: "json \<Rightarrow> bool" where
  "datasets_typed ds =
     (case field ''items'' ds of
        None \<Rightarrow> True
      | Some v \<Rightarrow> (case v of JArr its \<Rightarrow> list_all series_typed its | _ \<Rightarrow> False))"

definition path_typed :: "json \<Rightarrow> bool" where
  "path_typed data =
     (isinstance_dict data \<and>
      (case field ''content'' data of
         None \<Rightarrow> True
       | Some c \<Rightarrow> isinstance_dict c \<and>
           (case field ''datasets'' c of None \<Rightarrow> True | Some ds \<Rightarrow> datasets_typed ds)))"

text \<open>
  A response shaped as the data model says: every key of the path is there, with a value
  of the expected type.
\<close>

definition year_shaped :: "json \<Rightarrow> bool" where
  "year_shaped y = (case field ''item'' y of None \<Rightarrow> False | Some v \<Rightarrow> list_of_mappings v)"

definition series_shaped :: "json \<Rightarrow> bool" where
  "series_shaped it =
     (case field ''years'' it of
        None \<Rightarrow> False
      | Some v \<Rightarrow> (case v of JArr ys \<Rightarrow> list_all year_shaped ys | _ \<Rightarrow> False))"

definition shaped :: "json \<Rightarrow> bool" where
  "shaped data =
     (case field ''content'' data of
        None \<Rightarrow> False
      | Some c \<Rightarrow>
     (case field ''datasets'' c of
        None \<Rightarrow> False
      | Some ds \<Rightarrow>
     (case field ''items'' ds of
        None \<Rightarrow> False
      | Some v \<Rightarrow> (case v of JArr its \<Rightarrow> list_all series_shaped its | _ \<Rightarrow> False))))"

text \<open>The series entries, the year entries of a series, the survey entries of a year.\<close>

definition series_entries :: "json \<Rightarrow> json list" where
  "series_entries data =
     elems (field_or ''items'' (JArr [])
             (field_or ''datasets'' (JObj []) (field_or ''content'' (JObj []) data)))"

definition year_entries :: "json \<Rightarrow> json list" where
  "year_entries it = elems (field_or ''years'' (JArr []) it)"

definition survey_entries :: "json \<Rightarrow> json list" where
  "survey_entries y = elems (field_or ''item'' (JArr []) y)"

text \<open>
  The record of one leaf survey: the given category, the series name and the year of the
  enclosing entries, the title and the URI of the survey, each with its default.
\<close>

definition leaf_record :: "string \<Rightarrow> json \<Rightarrow> json \<Rightarrow> json \<Rightarrow> json survey_record" where
  "leaf_record category it y sv =
     \<lparr>Category = JStr category,
      Series_Name = field_or ''series'' (JStr ''Unknown'') it,
      Year = field_or ''year'' (JStr ''Unknown'') y,
      Survey_Title = field_or ''title'' (JStr '''') sv,
      URI = field_or ''uri'' (JStr '''') sv\<rparr>"

definition leaf_records :: "string \<Rightarrow> json \<Rightarrow> json survey_record list" where
  "leaf_records category data =
     concat (map (\<lambda>it. concat (map (\<lambda>y. map (leaf_record category it y) (survey_entries y))
                                    (year_entries it)))
                 (series_entries data))"

definition leaf_count :: "json \<Rightarrow> nat" where
  "leaf_count data =
     sum_list (map (\<lambda>it. sum_list (map (\<lambda>y. length (survey_entries y)) (year_entries it)))
                   (series_entries data))"

subsection \<open>The effects of a run\<close>

text \<open>The URL of a category's request, and the request itself, with its timeout.\<close>

definition request_url :: "string \<Rightarrow> string" where
  "request_url category = BASE_URL @ ''?category='' @ quote category"

definition request :: "string \<Rightarrow> event" where
  "request category = HttpGet (request_url category) 30"



text \<open>A sequence with a separator strictly between each two consecutive elements.\<close>

fun intersperse :: "'a \<Rightarrow> 'a list \<Rightarrow> 'a list" where
  "intersperse sep [] = []"
| "intersperse sep [x] = [x]"
| "intersperse sep (x # y # ys) = x # sep # intersperse sep (y # ys)"

text \<open>The categories a call works on: the given list, or the fixed catalog.\<close>

definition chosen :: "string list option \<Rightarrow> string list" where
  "chosen categories = (case categories of None \<Rightarrow> CATEGORIES | Some cs \<Rightarrow> cs)"

text \<open>
  The parsed record list of each category, in category order: what the parser makes of the
  data the fetcher returns for the category, the requests being sent one after the other
  from the world \<open>w\<close> on. A category whose fetch or parse raises has no list here.
\<close>

fun parsed_lists :: "'w ODESIScraper \<Rightarrow> string list \<Rightarrow> 'w \<Rightarrow> json survey_record list list" where
  "parsed_lists self [] w = []"
| "parsed_lists self (category # rest) w =
     (case fetch_category_data self category \<lparr>world = w, trace = []\<rparr> of
        (Inl e, s1) \<Rightarrow> []
      | (Inr data, s1) \<Rightarrow>
          (case parse_category_data category data of
             Inl e \<Rightarrow> []
           | Inr records \<Rightarrow> records # parsed_lists self rest (world s1)))"


subsection \<open>Duplicates and summaries\<close>

text \<open>
  A dataset is a list of Survey Records whose fields are strings. The normalized title of
  a record is its title in lower case, then trimmed. Two records are duplicates of each
  other when they agree on the normalized title, the series name and the year; a record
  is in a duplicate group of the dataset when two or more records of the dataset have its
  triple.
\<close>

definition normalized_title :: "string survey_record \<Rightarrow> string" where
  "normalized_title r = str_strip (str_lower (Survey_Title r))"

definition duplicate_key :: "string survey_record \<Rightarrow> string list" where
  "duplicate_key r = [normalized_title r, Series_Name r, Year r]"

definition in_duplicate_group :: "string survey_record list \<Rightarrow> string survey_record \<Rightarrow> bool" where
  "in_duplicate_group records r =
     (2 \<le> length (filter (\<lambda>q. duplicate_key q = duplicate_key r) records))"

text \<open>The order of the result: by series name, then year, then the title as it is.\<close>

definition order_key :: "string survey_record \<Rightarrow> string list" where
  "order_key r = [Series_Name r, Year r, Survey_Title r]"

text \<open>The sheet of a workbook with a given name, if there is one.\<close>

definition sheet_named :: "string \<Rightarrow> sheet list \<Rightarrow> sheet option" where
  "sheet_named name wb = find (\<lambda>sh. sheet_name sh = name) wb"

text \<open>The records of a dataset in a (category, series) group.\<close>

definition series_group ::
  "string survey_record list \<Rightarrow> string \<Rightarrow> string \<Rightarrow> string survey_record list" where
  "series_group records c sn = filter (\<lambda>r. Category r = c \<and> Series_Name r = sn) records"

text \<open>
  The summary row of a (category, series) group: the two labels, the number of records in
  the group, and the least and the greatest of their year labels in the order of strings,
  which compares code point by code point.
\<close>

definition series_row :: "string survey_record list \<Rightarrow> string \<Rightarrow> string \<Rightarrow> cell list" where
  "series_row records c sn =
     [Text c, Text sn, Number (length (series_group records c sn)),
      Text (Min (set (map Year (series_group records c sn)))),
      Text (Max (set (map Year (series_group records c sn))))]"

subsection \<open>Datasets as the aggregator and the worksheet see them\<close>

text \<open>A record of strings as the parser builds it: each value a JSON string.\<close>

definition json_record :: "string survey_record \<Rightarrow> json survey_record" where
  "json_record r =
     \<lparr>Category = JStr (Category r), Series_Name = JStr (Series_Name r), Year = JStr (Year r),
      Survey_Title = JStr (Survey_Title r), URI = JStr (URI r)\<rparr>"

text \<open>
  A text that a worksheet stores as it is: at most 32767 characters, none of them a
  control character that the worksheet library refuses, and not taken for a formula. A
  dataset that a workbook can hold: at most 1048576 records, every field such a text.
\<close>

definition worksheet_text :: "string \<Rightarrow> bool" where
  "worksheet_text v =
     (length v \<le> 32767 \<and> list_all (\<lambda>c. \<not> illegal_character c) v
      \<and> \<not> (1 < length v \<and> hd v = CHR ''=''))"

definition worksheet_record :: "string survey_record \<Rightarrow> bool" where
  "worksheet_record r = list_all worksheet_text (record_values r)"

definition worksheet_dataset :: "string survey_record list \<Rightarrow> bool" where
  "worksheet_dataset records = (length records \<le> 1048576 \<and> list_all worksheet_record records)"


section \<open>Properties of the parser\<close>

lemma for_each_map:
  "(\<And>x. x \<in> set xs \<Longrightarrow> f x = Inr (g x)) \<Longrightarrow> for_each f xs = Inr (concat (map g xs))"
  by (induction xs) simp_all

lemma parse_survey_dict:
  "isinstance_dict sv \<Longrightarrow> parse_survey category sn yr sv =
     Inr [\<lparr>Category = JStr category, Series_Name = sn, Year = yr,
           Survey_Title = field_or ''title'' (JStr '''') sv, URI = field_or ''uri'' (JStr '''') sv\<rparr>]"
  by (cases sv) (simp_all add: parse_survey_def field_or_def field_def)

lemma parse_year_typed:
  assumes "year_typed y"
  shows "parse_year category sn y =
           Inr (map (\<lambda>sv. \<lparr>Category = JStr category, Series_Name = sn,
                            Year = field_or ''year'' (JStr ''Unknown'') y,
                            Survey_Title = field_or ''title'' (JStr '''') sv,
                            URI = field_or ''uri'' (JStr '''') sv\<rparr>) (survey_entries y))"
proof -
  from assms obtain kv where y: "y = JObj kv"
    by (cases y) (simp_all add: year_typed_def)
  have dicts: "list_all isinstance_dict (survey_entries y)"
    using assms unfolding y
    by (auto simp: year_typed_def survey_entries_def field_or_def field_def elems_def
        list_of_mappings_def split: option.splits json.splits)
  have it: "py_iter (case map_of kv ''item'' of None \<Rightarrow> JArr [] | Some v \<Rightarrow> v) = Inr (survey_entries y)"
    using assms unfolding y
    by (auto simp: year_typed_def survey_entries_def field_or_def field_def elems_def
        list_of_mappings_def split: option.splits json.splits)
  have "for_each (parse_survey category sn (field_or ''year'' (JStr ''Unknown'') y)) (survey_entries y)
        = Inr (concat (map (\<lambda>sv. [\<lparr>Category = JStr category, Series_Name = sn,
                            Year = field_or ''year'' (JStr ''Unknown'') y,
                            Survey_Title = field_or ''title'' (JStr '''') sv,
                            URI = field_or ''uri'' (JStr '''') sv\<rparr>]) (survey_entries y)))"
    using dicts by (intro for_each_map parse_survey_dict) (simp add: list_all_iff)
  then show ?thesis
    using it unfolding y by (simp add: parse_year_def field_or_def field_def)
qed

lemma parse_year_leaf:
  "year_typed y \<Longrightarrow>
   parse_year category (field_or ''series'' (JStr ''Unknown'') it) y =
     Inr (map (leaf_record category it y) (survey_entries y))"
  by (simp add: parse_year_typed leaf_record_def)

lemma parse_series_typed:
  assumes "series_typed it"
  shows "parse_series category it =
           Inr (concat (map (\<lambda>y. map (leaf_record category it y) (survey_entries y))
                            (year_entries it)))"
proof -
  from assms obtain kv where it: "it = JObj kv"
    by (cases it) (simp_all add: series_typed_def)
  have typed: "list_all year_typed (year_entries it)"
    using assms unfolding it
    by (auto simp: series_typed_def year_entries_def field_or_def field_def elems_def
        split: option.splits json.splits)
  have iter: "py_iter (case map_of kv ''years'' of None \<Rightarrow> JArr [] | Some v \<Rightarrow> v)
              = Inr (year_entries it)"
    using assms unfolding it
    by (auto simp: series_typed_def year_entries_def field_or_def field_def elems_def
        split: option.splits json.splits)
  have "for_each (parse_year category (field_or ''series'' (JStr ''Unknown'') it)) (year_entries it)
        = Inr (concat (map (\<lambda>y. map (leaf_record category it y) (survey_entries y))
                            (year_entries it)))"
    using typed by (intro for_each_map parse_year_leaf) (simp add: list_all_iff)
  then show ?thesis
    using iter unfolding it by (simp add: parse_series_def field_or_def field_def)
qed

lemma for_each_parse_series:
  "list_all series_typed its \<Longrightarrow>
   for_each (parse_series category) its =
     Inr (concat (map (\<lambda>it. concat (map (\<lambda>y. map (leaf_record category it y) (survey_entries y))
                                           (year_entries it))) its))"
  by (intro for_each_map parse_series_typed) (simp add: list_all_iff)

lemma parse_path_typed:
  assumes "path_typed data"
  shows "parse_category_data category data = Inr (leaf_records category data)"
proof -
  from assms obtain kv where data: "data = JObj kv"
    by (cases data) (simp_all add: path_typed_def)
  show ?thesis
  proof (cases "map_of kv ''content''")
    case None
    then have "''content'' \<notin> set (map fst kv)"
      by (simp add: map_of_eq_None_iff)
    then show ?thesis
      using None unfolding data
      by (simp add: parse_category_data_def leaf_records_def series_entries_def field_or_def
          field_def elems_def)
  next
    case (Some c)
    then have present: "''content'' \<in> set (map fst kv)" and ne: "kv \<noteq> []"
      by (auto dest: map_of_SomeD intro: rev_image_eqI)
    from assms Some obtain ckv where c: "c = JObj ckv"
      by (cases c) (simp_all add: path_typed_def data field_def)
    show ?thesis
    proof (cases "map_of ckv ''datasets''")
      case None
      then show ?thesis
        using Some present ne unfolding data c
        by (simp add: parse_category_data_def leaf_records_def series_entries_def field_or_def
            field_def elems_def)
    next
      case ds: (Some ds)
      show ?thesis
      proof (cases "isinstance_dict ds")
        case False
        then show ?thesis
          using Some ds present ne unfolding data c
          by (cases ds)
             (simp_all add: parse_category_data_def leaf_records_def series_entries_def
               field_or_def field_def elems_def)
      next
        case True
        then obtain dkv where d: "ds = JObj dkv" by (cases ds) simp_all
        have typed: "datasets_typed ds"
          using assms Some ds unfolding data c by (simp add: path_typed_def field_def)
        have entries: "series_entries data =
                         elems (case map_of dkv ''items'' of None \<Rightarrow> JArr [] | Some v \<Rightarrow> v)"
          using Some ds unfolding data c d
          by (simp add: series_entries_def field_or_def field_def)
        have iter: "py_iter (case map_of dkv ''items'' of None \<Rightarrow> JArr [] | Some v \<Rightarrow> v)
                    = Inr (series_entries data)"
          using typed unfolding entries d
          by (auto simp: datasets_typed_def field_def elems_def split: option.splits json.splits)
        have all: "list_all series_typed (series_entries data)"
          using typed unfolding entries d
          by (auto simp: datasets_typed_def field_def elems_def split: option.splits json.splits)
        show ?thesis
          using Some ds present ne iter for_each_parse_series [OF all, of category]
          unfolding data c d
          by (simp add: parse_category_data_def leaf_records_def)
      qed
    qed
  qed
qed

lemma year_shaped_typed: "year_shaped y \<Longrightarrow> year_typed y"
  by (cases y) (auto simp: year_shaped_def year_typed_def field_def split: option.splits)

lemma series_shaped_typed: "series_shaped it \<Longrightarrow> series_typed it"
  by (cases it)
     (auto simp: series_shaped_def series_typed_def field_def list_all_iff
       intro: year_shaped_typed split: option.splits json.splits)

lemma shaped_path_typed: "shaped data \<Longrightarrow> path_typed data"
  by (auto simp: shaped_def path_typed_def datasets_typed_def field_def list_all_iff
      intro: series_shaped_typed split: option.splits json.splits)

lemma length_leaf_records: "length (leaf_records category data) = leaf_count data"
  by (simp add: leaf_records_def leaf_count_def length_concat comp_def)

lemma Category_leaf_records: "r \<in> set (leaf_records category data) \<Longrightarrow> Category r = JStr category"
  by (auto simp: leaf_records_def leaf_record_def)

text \<open>
  C1, as stated, fails: a mapping whose \<^verbatim>\<open>content\<close> value is a text makes the parser raise
  AttributeError, at \<^verbatim>\<open>content.get\<close>.
\<close>

theorem parse_raises_on_text_content:
  "parse_category_data ''Health'' (JObj [(''content'', JStr ''unavailable'')]) = Inl AttributeError"
  by (simp add: parse_category_data_def)

text \<open>
  C1, amended: the parser returns the empty sequence for the empty mapping, for a mapping
  without the key \<^verbatim>\<open>content\<close>, and for a \<^verbatim>\<open>datasets\<close> value that is no mapping; and it
  never raises on a mapping in which every value present on the path content, datasets,
  items, years, item has the type the path expects, whatever keys are missing.
\<close>

theorem parse_degrades_on_typed_path:
  "parse_category_data category (JObj []) = Inr []
   \<and> (isinstance_dict data \<and> field ''content'' data = None
        \<longrightarrow> parse_category_data category data = Inr [])
   \<and> (isinstance_dict data \<and> field ''content'' data = Some c \<and> isinstance_dict c
        \<and> field ''datasets'' c = Some ds \<and> \<not> isinstance_dict ds
        \<longrightarrow> parse_category_data category data = Inr [])
   \<and> (path_typed data \<longrightarrow> (\<exists>records. parse_category_data category data = Inr records))"
proof (intro conjI impI)
  show "parse_category_data category (JObj []) = Inr []"
    by (simp add: parse_category_data_def)
next
  assume a: "isinstance_dict data \<and> field ''content'' data = None"
  then have "path_typed data" by (simp add: path_typed_def)
  then have "parse_category_data category data = Inr (leaf_records category data)"
    by (rule parse_path_typed)
  moreover have "leaf_records category data = []"
    using a by (simp add: leaf_records_def series_entries_def field_or_def field_def elems_def)
  ultimately show "parse_category_data category data = Inr []" by simp
next
  assume a: "isinstance_dict data \<and> field ''content'' data = Some c \<and> isinstance_dict c
        \<and> field ''datasets'' c = Some ds \<and> \<not> isinstance_dict ds"
  then have "datasets_typed ds"
    by (cases ds) (simp_all add: datasets_typed_def field_def)
  with a have "path_typed data" by (simp add: path_typed_def)
  then have "parse_category_data category data = Inr (leaf_records category data)"
    by (rule parse_path_typed)
  moreover have "leaf_records category data = []"
    using a by (cases ds) (simp_all add: leaf_records_def series_entries_def field_or_def field_def elems_def)
  ultimately show "parse_category_data category data = Inr []" by simp
next
  assume "path_typed data"
  then show "\<exists>records. parse_category_data category data = Inr records"
    by (simp add: parse_path_typed)
qed

text \<open>
  The three hypotheses of the amended C1 at concrete responses: a mapping without
  \<^verbatim>\<open>content\<close>, a text in place of the datasets, and a typed path with missing keys.
\<close>

theorem parse_degrades_on_typed_path_witness:
  "parse_category_data ''Health'' (JObj [(''status'', JStr ''ok'')]) = Inr []
   \<and> parse_category_data ''Health''
        (JObj [(''content'', JObj [(''datasets'', JStr ''No datasets'')])]) = Inr []
   \<and> path_typed (JObj [(''content'', JObj [(''datasets'', JObj [(''items'',
        JArr [JObj [(''series'', JStr ''LFS'')],
              JObj [(''years'', JArr [JObj [(''year'', JStr ''2001'')]])]])])])])
   \<and> (\<exists>records. parse_category_data ''Health''
        (JObj [(''content'', JObj [(''datasets'', JObj [(''items'',
        JArr [JObj [(''series'', JStr ''LFS'')],
              JObj [(''years'', JArr [JObj [(''year'', JStr ''2001'')]])]])])])]) = Inr records)"
proof -
  let ?d1 = "JObj [(''status'', JStr ''ok'')]"
  let ?ds = "JStr ''No datasets''"
  let ?c = "JObj [(''datasets'', ?ds)]"
  let ?d2 = "JObj [(''content'', ?c)]"
  let ?d3 = "JObj [(''content'', JObj [(''datasets'', JObj [(''items'',
        JArr [JObj [(''series'', JStr ''LFS'')],
              JObj [(''years'', JArr [JObj [(''year'', JStr ''2001'')]])]])])])]"
  have h1: "isinstance_dict ?d1 \<and> field ''content'' ?d1 = None"
    by (simp add: field_def)
  have h2: "isinstance_dict ?d2 \<and> field ''content'' ?d2 = Some ?c \<and> isinstance_dict ?c
        \<and> field ''datasets'' ?c = Some ?ds \<and> \<not> isinstance_dict ?ds"
    by (simp add: field_def)
  have h3: "path_typed ?d3"
    by (simp add: path_typed_def datasets_typed_def series_typed_def year_typed_def field_def)
  show ?thesis
    using h1 h2 h3
      parse_degrades_on_typed_path [of "''Health''" ?d1]
      parse_degrades_on_typed_path [of "''Health''" ?d2 ?c ?ds]
      parse_degrades_on_typed_path [of "''Health''" ?d3]
    by blast
qed

text \<open>
  C2: for a response shaped as content, datasets, items, series, years, year, item,
  survey, the parser returns exactly one record per leaf survey, in document order: the
  given category on every record, the series name and the year of the enclosing entries,
  with the defaults \<^verbatim>\<open>Unknown\<close> for an absent series or year and the empty string for an
  absent title or URI.
\<close>

theorem parse_one_record_per_leaf:
  assumes "shaped data"
  shows "parse_category_data category data = Inr (leaf_records category data)
         \<and> length (leaf_records category data) = leaf_count data
         \<and> (\<forall>r \<in> set (leaf_records category data). Category r = JStr category)"
  using assms
  by (simp add: parse_path_typed shaped_path_typed length_leaf_records Category_leaf_records)

text \<open>
  C2 at a response with two series: the first with every key, the second with none of the
  optional ones.
\<close>

theorem parse_one_record_per_leaf_witness:
  "shaped (JObj [(''content'', JObj [(''datasets'', JObj [(''items'',
      JArr [JObj [(''series'', JStr ''Labour Force Survey''),
                  (''years'', JArr [JObj [(''year'', JStr ''2001''),
                     (''item'', JArr [JObj [(''title'', JStr ''LFS 2001 Wave 1''), (''uri'', JStr ''/lfs/1'')],
                                      JObj [(''title'', JStr ''LFS 2001 Wave 2'')]])]])],
            JObj [(''years'', JArr [JObj [(''item'', JArr [JObj []])]])]])])])])
   \<and> parse_category_data ''Health'' (JObj [(''content'', JObj [(''datasets'', JObj [(''items'',
      JArr [JObj [(''series'', JStr ''Labour Force Survey''),
                  (''years'', JArr [JObj [(''year'', JStr ''2001''),
                     (''item'', JArr [JObj [(''title'', JStr ''LFS 2001 Wave 1''), (''uri'', JStr ''/lfs/1'')],
                                      JObj [(''title'', JStr ''LFS 2001 Wave 2'')]])]])],
            JObj [(''years'', JArr [JObj [(''item'', JArr [JObj []])]])]])])])])
     = Inr [\<lparr>Category = JStr ''Health'', Series_Name = JStr ''Labour Force Survey'',
             Year = JStr ''2001'', Survey_Title = JStr ''LFS 2001 Wave 1'', URI = JStr ''/lfs/1''\<rparr>,
            \<lparr>Category = JStr ''Health'', Series_Name = JStr ''Labour Force Survey'',
             Year = JStr ''2001'', Survey_Title = JStr ''LFS 2001 Wave 2'', URI = JStr ''''\<rparr>,
            \<lparr>Category = JStr ''Health'', Series_Name = JStr ''Unknown'',
             Year = JStr ''Unknown'', Survey_Title = JStr '''', URI = JStr ''''\<rparr>]"
proof -
  let ?d = "JObj [(''content'', JObj [(''datasets'', JObj [(''items'',
      JArr [JObj [(''series'', JStr ''Labour Force Survey''),
                  (''years'', JArr [JObj [(''year'', JStr ''2001''),
                     (''item'', JArr [JObj [(''title'', JStr ''LFS 2001 Wave 1''), (''uri'', JStr ''/lfs/1'')],
                                      JObj [(''title'', JStr ''LFS 2001 Wave 2'')]])]])],
            JObj [(''years'', JArr [JObj [(''item'', JArr [JObj []])]])]])])])]"
  have h: "shaped ?d"
    by (simp add: shaped_def series_shaped_def year_shaped_def list_of_mappings_def field_def)
  have v: "leaf_records ''Health'' ?d =
      [\<lparr>Category = JStr ''Health'', Series_Name = JStr ''Labour Force Survey'',
             Year = JStr ''2001'', Survey_Title = JStr ''LFS 2001 Wave 1'', URI = JStr ''/lfs/1''\<rparr>,
            \<lparr>Category = JStr ''Health'', Series_Name = JStr ''Labour Force Survey'',
             Year = JStr ''2001'', Survey_Title = JStr ''LFS 2001 Wave 2'', URI = JStr ''''\<rparr>,
            \<lparr>Category = JStr ''Health'', Series_Name = JStr ''Unknown'',
             Year = JStr ''Unknown'', Survey_Title = JStr '''', URI = JStr ''''\<rparr>]"
    by (simp add: leaf_records_def leaf_record_def series_entries_def year_entries_def
        survey_entries_def field_or_def field_def elems_def)
  show ?thesis
    using h v parse_one_record_per_leaf [OF h, of "''Health''"] by simp
qed

section \<open>Properties of the fetcher\<close>

lemma fetch_trace:
  "trace (snd (fetch_category_data self category s)) = trace s @ [request category]"
  by (simp add: fetch_category_data_def request_def request_url_def Let_def
      split: prod.splits sum.splits option.splits)

lemma fetch_world:
  "world s = w \<Longrightarrow>
   fst (fetch_category_data self category s) = fst (fetch_category_data self category \<lparr>world = w, trace = []\<rparr>)
   \<and> world (snd (fetch_category_data self category s)) = world (snd (fetch_category_data self category \<lparr>world = w, trace = []\<rparr>))"
  by (auto simp add: fetch_category_data_def Let_def split: prod.splits sum.splits option.splits)

text \<open>
  C6: the fetcher sends one request for the category and no other (no retry). When the
  request raises a RequestException (a network error, a timeout) or the response has a
  4xx or 5xx status, it returns the empty mapping instead of raising; when the response has
  another status and its body decodes, it returns the decoded body.
\<close>

theorem fetch_empty_mapping_on_failure:
  "trace (snd (fetch_category_data self category s)) = trace s @ [HttpGet (request_url category) 30]
   \<and> (session_get self (request_url category) 30 (world s) = (Inl e, w) \<and> is_RequestException e
        \<longrightarrow> fst (fetch_category_data self category s) = Inr (JObj []))
   \<and> (session_get self (request_url category) 30 (world s) = (Inr r, w)
        \<and> 400 \<le> status_code r \<and> status_code r < 600
        \<longrightarrow> fst (fetch_category_data self category s) = Inr (JObj []))
   \<and> (session_get self (request_url category) 30 (world s) = (Inr r, w)
        \<and> \<not> (400 \<le> status_code r \<and> status_code r < 600) \<and> json_result r = Inr body
        \<longrightarrow> fst (fetch_category_data self category s) = Inr body)"
proof (intro conjI impI)
  show "trace (snd (fetch_category_data self category s)) = trace s @ [HttpGet (request_url category) 30]"
    using fetch_trace [of self category s] by (simp add: request_def)
next
  assume "session_get self (request_url category) 30 (world s) = (Inl e, w) \<and> is_RequestException e"
  then show "fst (fetch_category_data self category s) = Inr (JObj [])"
    by (simp add: fetch_category_data_def request_url_def except_RequestException_def)
next
  assume "session_get self (request_url category) 30 (world s) = (Inr r, w)
        \<and> 400 \<le> status_code r \<and> status_code r < 600"
  then show "fst (fetch_category_data self category s) = Inr (JObj [])"
    by (simp add: fetch_category_data_def request_url_def except_RequestException_def
        raise_for_status_def)
next
  assume "session_get self (request_url category) 30 (world s) = (Inr r, w)
        \<and> \<not> (400 \<le> status_code r \<and> status_code r < 600) \<and> json_result r = Inr body"
  then show "fst (fetch_category_data self category s) = Inr body"
    by (auto simp add: fetch_category_data_def request_url_def raise_for_status_def)
qed

text \<open>
  C6 at a session that times out, at one that answers 503, and at one that answers 200
  with a body; and the request sent for a category whose name needs encoding.
\<close>

theorem fetch_empty_mapping_on_failure_witness:
  "fst (fetch_category_data \<lparr>delay = 1, session_get = (\<lambda>url t w. (Inl Timeout, Suc w))\<rparr>
          ''Health'' \<lparr>world = 0, trace = []\<rparr>) = Inr (JObj [])
   \<and> fst (fetch_category_data
          \<lparr>delay = 1, session_get = (\<lambda>url t w. (Inr \<lparr>status_code = 503, json_result = Inr JNull\<rparr>, Suc w))\<rparr>
          ''Health'' \<lparr>world = 0, trace = []\<rparr>) = Inr (JObj [])
   \<and> fst (fetch_category_data
          \<lparr>delay = 1, session_get = (\<lambda>url t w. (Inr \<lparr>status_code = 200, json_result = Inr (JObj [(''content'', JObj [])])\<rparr>, Suc w))\<rparr>
          ''Health'' \<lparr>world = 0, trace = []\<rparr>) = Inr (JObj [(''content'', JObj [])])
   \<and> trace (snd (fetch_category_data \<lparr>delay = 1, session_get = (\<lambda>url t w. (Inl Timeout, Suc w))\<rparr>
          ''Crime and Justice'' \<lparr>world = 0, trace = []\<rparr>))
       = [HttpGet ''https://odesi.ca/api/browse?category=Crime%20and%20Justice'' 30]"
proof -
  let ?s = "\<lparr>world = 0::nat, trace = []\<rparr>"
  let ?a = "\<lparr>delay = 1, session_get = (\<lambda>url t w. (Inl Timeout, Suc w))\<rparr>"
  let ?r1 = "\<lparr>status_code = 503, json_result = Inr JNull\<rparr>"
  let ?b = "\<lparr>delay = 1, session_get = (\<lambda>url t w. (Inr ?r1, Suc w))\<rparr>"
  let ?r2 = "\<lparr>status_code = 200, json_result = Inr (JObj [(''content'', JObj [])])\<rparr>"
  let ?c = "\<lparr>delay = 1, session_get = (\<lambda>url t w. (Inr ?r2, Suc w))\<rparr>"
  have u: "request_url ''Crime and Justice'' = ''https://odesi.ca/api/browse?category=Crime%20and%20Justice''"
    by (simp add: request_url_def BASE_URL_def quote_def quote_char_def always_safe_def
        percent_byte_def hex_digit_def)
  show ?thesis
    using u
      fetch_empty_mapping_on_failure [of ?a "''Health''" ?s Timeout "Suc 0"]
      fetch_empty_mapping_on_failure [of ?b "''Health''" ?s _ _ ?r1 ]
      fetch_empty_mapping_on_failure [of ?c "''Health''" ?s _ "Suc 0" ?r2 "JObj [(''content'', JObj [])]"]
      fetch_empty_mapping_on_failure [of ?a "''Crime and Justice''" ?s]
    by simp
qed

section \<open>Properties of the aggregator\<close>

lemma intersperse_Cons: "ys \<noteq> [] \<Longrightarrow> intersperse sep (x # ys) = x # sep # intersperse sep ys"
  by (cases ys) simp_all






text \<open>
  The loop, started at category number \<open>i\<close> with the categories that remain: when it
  returns, it has added the requests of the remaining categories with one pause between
  each two, and appended each category's parsed list to the records it began with.
\<close>

lemma scrape_loop_returns:
  assumes "scrape_loop self n i cats acc s = (Inr recs, s')" and "i + length cats = Suc n"
  shows "trace s' = trace s @ intersperse (Sleep (delay self)) (map request cats)
         \<and> recs = acc @ concat (parsed_lists self cats (world s))
         \<and> length (parsed_lists self cats (world s)) = length cats"
  using assms
proof (induction cats arbitrary: i acc s)
  case Nil
  then show ?case by simp
next
  case (Cons category rest)
  obtain r s1 where f: "fetch_category_data self category s = (r, s1)"
    by (cases "fetch_category_data self category s")
  from Cons.prems(1) f obtain data where r: "r = Inr data"
    by (cases r) simp_all
  from Cons.prems(1) f r obtain records where p: "parse_category_data category data = Inr records"
    by (cases "parse_category_data category data") simp_all
  have t1: "trace s1 = trace s @ [request category]"
    using fetch_trace [of self category s] f by simp
  obtain r0 s0 where f0: "fetch_category_data self category \<lparr>world = world s, trace = []\<rparr> = (r0, s0)"
    by (cases "fetch_category_data self category \<lparr>world = world s, trace = []\<rparr>")
  have w: "r0 = Inr data" "world s0 = world s1"
    using fetch_world [of s "world s" self category] f r f0 by simp_all
  have pl: "parsed_lists self (category # rest) (world s) = records # parsed_lists self rest (world s1)"
    using f0 w p by simp
  show ?case
  proof (cases "rest = []")
    case True
    then have "\<not> i < n" using Cons.prems(2) by simp
    then have "s' = s1" "recs = acc @ records"
      using Cons.prems(1) f r p True by simp_all
    then show ?thesis using t1 pl True by simp
  next
    case False
    then have lt: "i < n" using Cons.prems(2) by (cases rest) simp_all
    let ?s2 = "s1\<lparr>trace := trace s1 @ [Sleep (delay self)]\<rparr>"
    have slept: "time_sleep (delay self) s1 = (Inr (), ?s2)"
      using Cons.prems(1) f r p lt by (auto simp: time_sleep_def split: if_splits)
    then have rec: "scrape_loop self n (Suc i) rest (acc @ records) ?s2 = (Inr recs, s')"
      using Cons.prems(1) f r p lt by simp
    have "Suc i + length rest = Suc n" using Cons.prems(2) by simp
    from Cons.IH [OF rec this]
    show ?thesis using t1 pl False by (simp add: intersperse_Cons)
  qed
qed

lemma scrape_all_returns:
  assumes "scrape_all_categories self categories s = (Inr df, s')"
  shows "trace s' = trace s @ intersperse (Sleep (delay self)) (map request (chosen categories))
         \<and> df = pd_DataFrame (concat (parsed_lists self (chosen categories) (world s)))
         \<and> length (parsed_lists self (chosen categories) (world s)) = length (chosen categories)"
proof -
  let ?cats = "chosen categories"
  obtain r t where l: "scrape_loop self (length ?cats) 1 ?cats [] s = (r, t)"
    by (cases "scrape_loop self (length ?cats) 1 ?cats [] s")
  with assms obtain recs where r: "r = Inr recs" and df: "df = pd_DataFrame recs" and t: "t = s'"
    by (cases r) (auto simp: scrape_all_categories_def chosen_def)
  from scrape_loop_returns [of self "length ?cats" 1 ?cats "[]" s recs s'] l r t
  show ?thesis using df by simp
qed






text \<open>The frame of records whose values are all strings.\<close>

lemma those_string_records: "those (map string_record (map json_record rs)) = Some rs"
  by (induction rs) (simp_all add: string_record_def json_record_def)

lemma pd_DataFrame_strings: "pd_DataFrame (map json_record rs) = Frame (DataFrame rs)"
  unfolding pd_DataFrame_def those_string_records by simp

text \<open>
  C5: the dataset the aggregator returns is \<^verbatim>\<open>pd.DataFrame\<close> of the concatenation of the
  categories' parsed record lists, one list per category, in category order: no record
  is removed and none is moved. When the values of the records are strings, the dataset is
  the frame with one row per record of the concatenation, in its order.
\<close>

theorem aggregator_concatenates:
  assumes "scrape_all_categories self categories s = (Inr ds, s')"
  shows "ds = pd_DataFrame (concat (parsed_lists self (chosen categories) (world s)))
         \<and> length (parsed_lists self (chosen categories) (world s)) = length (chosen categories)
         \<and> (\<forall>rs. concat (parsed_lists self (chosen categories) (world s)) = map json_record rs
               \<longrightarrow> ds = Frame (DataFrame rs) \<and> rows (DataFrame rs) = map record_values rs)"
  using scrape_all_returns [OF assms] by (simp add: pd_DataFrame_strings DataFrame_def)

text \<open>
  C5 at two categories, the second with two identical surveys: both stay in the dataset,
  after the record of the first category.
\<close>

theorem aggregator_concatenates_witness:
  "parsed_lists
     \<lparr>delay = 1,
      session_get = (\<lambda>url t w.
        (Inr \<lparr>status_code = 200,
              json_result = Inr (JObj [(''content'', JObj [(''datasets'', JObj [(''items'',
                JArr [JObj [(''series'', JStr ''S''),
                  (''years'', JArr [JObj [(''year'', JStr ''2001''),
                     (''item'', JArr (replicate w (JObj [(''title'', JStr ''T'')])))]])]])])])])\<rparr>,
         Suc w))\<rparr>
     [''Health'', ''Trade''] (Suc 0)
   = [[\<lparr>Category = JStr ''Health'', Series_Name = JStr ''S'', Year = JStr ''2001'',
         Survey_Title = JStr ''T'', URI = JStr ''''\<rparr>],
      [\<lparr>Category = JStr ''Trade'', Series_Name = JStr ''S'', Year = JStr ''2001'',
         Survey_Title = JStr ''T'', URI = JStr ''''\<rparr>,
       \<lparr>Category = JStr ''Trade'', Series_Name = JStr ''S'', Year = JStr ''2001'',
         Survey_Title = JStr ''T'', URI = JStr ''''\<rparr>]]
   \<and> fst (scrape_all_categories
     \<lparr>delay = 1,
      session_get = (\<lambda>url t w.
        (Inr \<lparr>status_code = 200,
              json_result = Inr (JObj [(''content'', JObj [(''datasets'', JObj [(''items'',
                JArr [JObj [(''series'', JStr ''S''),
                  (''years'', JArr [JObj [(''year'', JStr ''2001''),
                     (''item'', JArr (replicate w (JObj [(''title'', JStr ''T'')])))]])]])])])])\<rparr>,
         Suc w))\<rparr>
     (Some [''Health'', ''Trade'']) \<lparr>world = Suc 0, trace = []\<rparr>)
   = Inr (Frame \<lparr>columns = [''Category'', ''Series_Name'', ''Year'', ''Survey_Title'', ''URI''],
                  rows = [[''Health'', ''S'', ''2001'', ''T'', ''''],
                          [''Trade'', ''S'', ''2001'', ''T'', ''''],
                          [''Trade'', ''S'', ''2001'', ''T'', '''']]\<rparr>)"
proof -
  let ?self = "\<lparr>delay = 1,
      session_get = (\<lambda>url t w.
        (Inr \<lparr>status_code = 200,
              json_result = Inr (JObj [(''content'', JObj [(''datasets'', JObj [(''items'',
                JArr [JObj [(''series'', JStr ''S''),
                  (''years'', JArr [JObj [(''year'', JStr ''2001''),
                     (''item'', JArr (replicate w (JObj [(''title'', JStr ''T'')])))]])]])])])])\<rparr>,
         Suc w))\<rparr>"
  let ?s = "\<lparr>world = Suc 0, trace = []\<rparr>"
  let ?h = "\<lparr>Category = ''Health'', Series_Name = ''S'', Year = ''2001'',
         Survey_Title = ''T'', URI = ''''\<rparr>"
  let ?t = "\<lparr>Category = ''Trade'', Series_Name = ''S'', Year = ''2001'',
         Survey_Title = ''T'', URI = ''''\<rparr>"
  have lists: "parsed_lists ?self [''Health'', ''Trade''] (Suc 0)
               = [[json_record ?h], [json_record ?t, json_record ?t]]"
    by (simp add: fetch_category_data_def raise_for_status_def parse_category_data_def
        parse_series_def parse_year_def parse_survey_def numeral_2_eq_2 json_record_def)
  then have h: "concat (parsed_lists ?self (chosen (Some [''Health'', ''Trade''])) (world ?s))
                = map json_record [?h, ?t, ?t]"
    by (simp add: chosen_def)
  obtain r s' where run: "scrape_all_categories ?self (Some [''Health'', ''Trade'']) ?s = (r, s')"
    by (cases "scrape_all_categories ?self (Some [''Health'', ''Trade'']) ?s")
  have "\<exists>ds. r = Inr ds"
    using run
    by (auto simp add: scrape_all_categories_def fetch_category_data_def raise_for_status_def
        parse_category_data_def parse_series_def parse_year_def parse_survey_def time_sleep_def
        numeral_2_eq_2)
  then obtain ds where ret: "scrape_all_categories ?self (Some [''Health'', ''Trade'']) ?s
                             = (Inr ds, s')"
    using run by auto
  from aggregator_concatenates [OF ret] h have d: "ds = Frame (DataFrame [?h, ?t, ?t])"
    by blast
  have l1: "parsed_lists ?self [''Health'', ''Trade''] (Suc 0)
   = [[\<lparr>Category = JStr ''Health'', Series_Name = JStr ''S'', Year = JStr ''2001'',
         Survey_Title = JStr ''T'', URI = JStr ''''\<rparr>],
      [\<lparr>Category = JStr ''Trade'', Series_Name = JStr ''S'', Year = JStr ''2001'',
         Survey_Title = JStr ''T'', URI = JStr ''''\<rparr>,
       \<lparr>Category = JStr ''Trade'', Series_Name = JStr ''S'', Year = JStr ''2001'',
         Survey_Title = JStr ''T'', URI = JStr ''''\<rparr>]]"
    unfolding lists by (simp add: json_record_def)
  have l2: "fst (scrape_all_categories ?self (Some [''Health'', ''Trade'']) ?s)
   = Inr (Frame \<lparr>columns = [''Category'', ''Series_Name'', ''Year'', ''Survey_Title'', ''URI''],
                  rows = [[''Health'', ''S'', ''2001'', ''T'', ''''],
                          [''Trade'', ''S'', ''2001'', ''T'', ''''],
                          [''Trade'', ''S'', ''2001'', ''T'', '''']]\<rparr>)"
    unfolding ret d by (simp add: DataFrame_def record_keys_def record_values_def)
  show ?thesis
    using l1 l2 by (rule conjI)
qed

section \<open>Properties of the duplicate detector\<close>

text \<open>
  The rows that \<^verbatim>\<open>duplicated(keep=False)\<close> marks are those whose key is the key of two or
  more rows.
\<close>

lemma select_marked:
  "map fst (filter snd (zip (map g xs) (mark_duplicated seen (map k xs))))
   = map g (filter (\<lambda>x. k x \<in> set seen \<or> 2 \<le> length (filter (\<lambda>q. k q = k x) xs)) xs)"
proof (induction xs arbitrary: seen)
  case Nil
  then show ?case by simp
next
  case (Cons x xs)
  have head: "(k x \<in> set seen \<or> k x \<in> set (map k xs))
              \<longleftrightarrow> (k x \<in> set seen \<or> 2 \<le> length (filter (\<lambda>q. k q = k x) (x # xs)))"
  proof -
    have "k x \<in> set (map k xs) \<longleftrightarrow> filter (\<lambda>q. k q = k x) xs \<noteq> []"
      unfolding filter_empty_conv set_map by (metis (mono_tags) imageE imageI)
    also have "\<dots> \<longleftrightarrow> 2 \<le> length (filter (\<lambda>q. k q = k x) (x # xs))"
      by (cases "filter (\<lambda>q. k q = k x) xs") simp_all
    finally show ?thesis by simp
  qed
  have tail: "filter (\<lambda>y. k y \<in> set (k x # seen) \<or> 2 \<le> length (filter (\<lambda>q. k q = k y) xs)) xs
              = filter (\<lambda>y. k y \<in> set seen \<or> 2 \<le> length (filter (\<lambda>q. k q = k y) (x # xs))) xs"
  proof (rule filter_cong [OF refl])
    fix y assume y: "y \<in> set xs"
    then have "filter (\<lambda>q. k q = k y) xs \<noteq> []"
      by (auto simp: filter_empty_conv)
    then have "Suc 0 \<le> length (filter (\<lambda>q. k q = k y) xs)"
      by (cases "filter (\<lambda>q. k q = k y) xs") simp_all
    then show "(k y \<in> set (k x # seen) \<or> 2 \<le> length (filter (\<lambda>q. k q = k y) xs))
               \<longleftrightarrow> (k y \<in> set seen \<or> 2 \<le> length (filter (\<lambda>q. k q = k y) (x # xs)))"
      by auto
  qed
  show ?case
    using Cons.IH [of "k x # seen"] head tail by simp
qed

lemma insort_key_map: "insort_key f (g x) (map g xs) = map g (insort_key (\<lambda>y. f (g y)) x xs)"
  by (induction xs) simp_all

lemma sort_key_map: "sort_key f (map g xs) = map g (sort_key (\<lambda>y. f (g y)) xs)"
  by (induction xs) (simp_all add: insort_key_map)

lemma zip_map_same: "map h (zip (map f xs) (map g xs)) = map (\<lambda>x. h (f x, g x)) xs"
  by (induction xs) simp_all

text \<open>
  The detector on a dataset that is not empty: the frame it returns, and the frame it
  leaves behind in place of its argument.
\<close>

lemma find_duplicates_DataFrame:
  assumes "records \<noteq> []"
  shows "find_duplicates (DataFrame records) =
          (Inr \<lparr>columns = record_keys,
                rows = map record_values
                         (sort_key order_key (filter (in_duplicate_group records) records))\<rparr>,
           \<lparr>columns = record_keys @ [''Title_Normalized''],
            rows = map (\<lambda>r. record_values r @ [normalized_title r]) records\<rparr>)"
proof -
  let ?df = "DataFrame records"
  let ?row = "\<lambda>r. record_values r @ [normalized_title r]"
  let ?df1 = "\<lparr>columns = record_keys @ [''Title_Normalized''], rows = map ?row records\<rparr>"
  have ne: "\<not> df_empty ?df"
    using assms by (simp add: df_empty_def DataFrame_def record_keys_def)
  have titles: "get_column ?df ''Survey_Title'' = Inr (map Survey_Title records)"
    using assms by (simp add: get_column_def DataFrame_def record_keys_def record_values_def)
  have df1: "set_column ?df ''Title_Normalized'' (map str_strip (map str_lower (map Survey_Title records))) = ?df1"
    using assms
    by (simp add: set_column_def DataFrame_def record_keys_def zip_map_same normalized_title_def
        comp_def)
  have marks: "duplicated ?df1 [''Title_Normalized'', ''Series_Name'', ''Year'']
               = Inr (mark_duplicated [] (map duplicate_key records))"
    by (simp add: duplicated_def record_keys_def cells_at_def record_values_def
        duplicate_key_def [abs_def] comp_def)
  have sel: "select_rows ?df1 (mark_duplicated [] (map duplicate_key records))
             = \<lparr>columns = record_keys @ [''Title_Normalized''],
                rows = map ?row (filter (in_duplicate_group records) records)\<rparr>"
    by (simp add: select_rows_def select_marked in_duplicate_group_def [abs_def])
  have srt: "sort_values \<lparr>columns = record_keys @ [''Title_Normalized''],
                rows = map ?row (filter (in_duplicate_group records) records)\<rparr>
               [''Series_Name'', ''Year'', ''Survey_Title'']
             = Inr \<lparr>columns = record_keys @ [''Title_Normalized''],
                rows = map ?row (sort_key order_key (filter (in_duplicate_group records) records))\<rparr>"
    by (simp add: sort_values_def record_keys_def sort_key_map cells_at_def record_values_def
        order_key_def [abs_def])
  have drp: "drop_column \<lparr>columns = record_keys @ [''Title_Normalized''],
                rows = map ?row (sort_key order_key (filter (in_duplicate_group records) records))\<rparr>
               ''Title_Normalized''
             = Inr \<lparr>columns = record_keys,
                rows = map record_values (sort_key order_key (filter (in_duplicate_group records) records))\<rparr>"
    by (simp add: drop_column_def record_keys_def remove_nth_def record_values_def)
  show ?thesis
    unfolding find_duplicates_def
    by (simp only: ne if_False titles df1 marks sel srt drp sum.case Let_def)
qed

lemma two_members: "a \<in> set xs \<Longrightarrow> b \<in> set xs \<Longrightarrow> a \<noteq> b \<Longrightarrow> 2 \<le> length xs"
proof -
  assume "a \<in> set xs" "b \<in> set xs" "a \<noteq> b"
  then have "card {a, b} \<le> card (set xs)" by (intro card_mono) auto
  also have "\<dots> \<le> length xs" by (rule card_length)
  finally show ?thesis using \<open>a \<noteq> b\<close> by simp
qed

lemma find_duplicates_empty_dataset:
  "find_duplicates (DataFrame []) = (Inr DataFrame_empty, DataFrame [])"
  by (simp add: find_duplicates_def df_empty_def DataFrame_def)

text \<open>
  C3: for every dataset the detector returns, under the five columns of the dataset,
  exactly the records whose triple of normalized title, series name and year is the triple
  of two or more records, each as often as it is in the dataset, in ascending order of
  series name, year and title as written. Two different records of the dataset that agree
  on the normalized title, the series name and the year are both returned.
\<close>

theorem find_duplicates_returns_groups:
  "let ds = sort_key order_key (filter (in_duplicate_group records) records)
   in fst (find_duplicates (DataFrame records))
        = Inr \<lparr>columns = (if records = [] then [] else record_keys), rows = map record_values ds\<rparr>
      \<and> mset ds = mset (filter (in_duplicate_group records) records)
      \<and> set ds = {r \<in> set records. in_duplicate_group records r}
      \<and> sorted (map order_key ds)
      \<and> (\<forall>a b. a \<in> set records \<and> b \<in> set records \<and> a \<noteq> b
                \<and> normalized_title a = normalized_title b
                \<and> Series_Name a = Series_Name b \<and> Year a = Year b
             \<longrightarrow> a \<in> set ds \<and> b \<in> set ds)"
proof -
  let ?ds = "sort_key order_key (filter (in_duplicate_group records) records)"
  have res: "fst (find_duplicates (DataFrame records))
        = Inr \<lparr>columns = (if records = [] then [] else record_keys), rows = map record_values ?ds\<rparr>"
  proof (cases "records = []")
    case True
    then show ?thesis by (simp add: find_duplicates_empty_dataset DataFrame_empty_def)
  next
    case False
    then show ?thesis by (simp add: find_duplicates_DataFrame)
  qed
  have pair: "a \<in> set ?ds \<and> b \<in> set ?ds"
    if "a \<in> set records \<and> b \<in> set records \<and> a \<noteq> b
        \<and> normalized_title a = normalized_title b
        \<and> Series_Name a = Series_Name b \<and> Year a = Year b" for a b
  proof -
    from that have k: "duplicate_key a = duplicate_key b"
      by (simp add: duplicate_key_def)
    let ?g = "filter (\<lambda>q. duplicate_key q = duplicate_key a) records"
    have "a \<in> set ?g" "b \<in> set ?g" using that k by simp_all
    then have "2 \<le> length ?g" using that by (intro two_members [of a _ b]) simp_all
    then show ?thesis using that k by (simp add: in_duplicate_group_def)
  qed
  show ?thesis
    unfolding Let_def using res pair by simp blast
qed

text \<open>
  C3 at a dataset where two titles differ in case and surrounding blanks only: both
  records are returned, the third is not.
\<close>

theorem find_duplicates_returns_groups_witness:
  "fst (find_duplicates (DataFrame
     [\<lparr>Category = ''Trade'', Series_Name = ''ABC'', Year = ''9'', Survey_Title = ''X'', URI = ''/c''\<rparr>,
      \<lparr>Category = ''Health'', Series_Name = ''LFS'', Year = ''2001'',
       Survey_Title = ''Labour Survey 2001'', URI = ''/a''\<rparr>,
      \<lparr>Category = ''Health'', Series_Name = ''LFS'', Year = ''2001'',
       Survey_Title = '' labour survey 2001 '', URI = ''/b''\<rparr>]))
   = Inr \<lparr>columns = [''Category'', ''Series_Name'', ''Year'', ''Survey_Title'', ''URI''],
          rows = [[''Health'', ''LFS'', ''2001'', '' labour survey 2001 '', ''/b''],
                  [''Health'', ''LFS'', ''2001'', ''Labour Survey 2001'', ''/a'']]\<rparr>"
proof -
  let ?x = "\<lparr>Category = ''Trade'', Series_Name = ''ABC'', Year = ''9'', Survey_Title = ''X'', URI = ''/c''\<rparr>"
  let ?a = "\<lparr>Category = ''Health'', Series_Name = ''LFS'', Year = ''2001'',
       Survey_Title = ''Labour Survey 2001'', URI = ''/a''\<rparr>"
  let ?b = "\<lparr>Category = ''Health'', Series_Name = ''LFS'', Year = ''2001'',
       Survey_Title = '' labour survey 2001 '', URI = ''/b''\<rparr>"
  have n: "normalized_title ?a = normalized_title ?b"
    by code_simp
  have h: "?a \<in> set [?x, ?a, ?b] \<and> ?b \<in> set [?x, ?a, ?b] \<and> ?a \<noteq> ?b
           \<and> normalized_title ?a = normalized_title ?b
           \<and> Series_Name ?a = Series_Name ?b \<and> Year ?a = Year ?b"
    using n by simp
  have ds: "sort_key order_key (filter (in_duplicate_group [?x, ?a, ?b]) [?x, ?a, ?b]) = [?b, ?a]"
    by code_simp
  show ?thesis
    using h ds find_duplicates_returns_groups [of "[?x, ?a, ?b]"]
    by (simp add: Let_def record_keys_def record_values_def)
qed

text \<open>
  C8 does not hold of the code: the frame passed to the detector comes back with a sixth
  column, \<^verbatim>\<open>Title_Normalized\<close>. The column is dropped from the returned frame only.
\<close>

theorem find_duplicates_leaves_normalized_column:
  "snd (find_duplicates (DataFrame
     [\<lparr>Category = ''Health'', Series_Name = ''LFS'', Year = ''2001'',
       Survey_Title = ''LFS 2001 Wave 1'', URI = ''/a''\<rparr>]))
   = \<lparr>columns = [''Category'', ''Series_Name'', ''Year'', ''Survey_Title'', ''URI'',
                 ''Title_Normalized''],
      rows = [[''Health'', ''LFS'', ''2001'', ''LFS 2001 Wave 1'', ''/a'', ''lfs 2001 wave 1'']]\<rparr>"
proof -
  let ?a = "\<lparr>Category = ''Health'', Series_Name = ''LFS'', Year = ''2001'',
       Survey_Title = ''LFS 2001 Wave 1'', URI = ''/a''\<rparr>"
  have n: "normalized_title ?a = ''lfs 2001 wave 1''"
    by code_simp
  show ?thesis
    using n find_duplicates_DataFrame [of "[?a]"]
    by (simp add: record_keys_def record_values_def)
qed

section \<open>Properties of the exporter\<close>

text \<open>A table whose texts a worksheet stores as they are is written as it is.\<close>

lemma check_string_ok: "worksheet_text v \<Longrightarrow> check_string v = Inr v"
  by (simp add: worksheet_text_def check_string_def list_ex_iff list_all_iff)

lemma write_all_ok: "(\<And>x. x \<in> set xs \<Longrightarrow> f x = Inr x) \<Longrightarrow> write_all f xs = Inr xs"
  by (induction xs) simp_all

lemma write_cell_ok: "(\<And>v. c = Text v \<Longrightarrow> worksheet_text v) \<Longrightarrow> write_cell c = Inr c"
proof (cases c)
  case (Text v)
  assume "\<And>v. c = Text v \<Longrightarrow> worksheet_text v"
  with Text have w: "worksheet_text v" by simp
  then have "\<not> (1 < length v \<and> hd v = CHR ''='')" by (simp add: worksheet_text_def)
  then show ?thesis using Text check_string_ok [OF w] by auto
qed simp_all

lemma write_sheet_ok:
  assumes "length (data_rows sh) \<le> 1048576" and "length (header sh) \<le> 16384"
    and "\<And>v. Text v \<in> set (header sh) \<Longrightarrow> worksheet_text v"
    and "\<And>row v. row \<in> set (data_rows sh) \<Longrightarrow> Text v \<in> set row \<Longrightarrow> worksheet_text v"
  shows "write_sheet sh = Inr sh"
proof -
  have h: "write_all write_cell (header sh) = Inr (header sh)"
    using assms(3) by (intro write_all_ok write_cell_ok) simp
  have rw: "write_all write_cell row = Inr row" if "row \<in> set (data_rows sh)" for row
    using assms(4) [OF that] by (intro write_all_ok write_cell_ok) simp
  have b: "write_all (write_all write_cell) (data_rows sh) = Inr (data_rows sh)"
    by (rule write_all_ok) (rule rw)
  show ?thesis
    using assms(1,2) by (simp add: write_sheet_def h b)
qed

lemma worksheet_text_keys: "v \<in> set record_keys \<Longrightarrow> worksheet_text v"
  by (auto simp: record_keys_def worksheet_text_def illegal_character_def)

lemma worksheet_dataset_fields:
  assumes "worksheet_dataset records" and "r \<in> set records"
  shows "worksheet_text (Category r)" "worksheet_text (Series_Name r)" "worksheet_text (Year r)"
        "worksheet_text (Survey_Title r)" "worksheet_text (URI r)"
  using assms
  by (auto simp: worksheet_dataset_def worksheet_record_def record_values_def list_all_iff)

lemma to_excel_records:
  assumes "worksheet_dataset records" and "set rs \<subseteq> set records" and "length rs \<le> length records"
  shows "to_excel \<lparr>columns = record_keys, rows = map record_values rs\<rparr> name
         = Inr \<lparr>sheet_name = name, header = map Text record_keys,
                data_rows = map (map Text) (map record_values rs)\<rparr>"
  unfolding to_excel_def
proof (simp, rule write_sheet_ok)
  show "length (data_rows \<lparr>sheet_name = name, header = map Text record_keys,
                data_rows = map (map Text \<circ> record_values) rs\<rparr>) \<le> 1048576"
    using assms by (simp add: worksheet_dataset_def)
  show "length (header \<lparr>sheet_name = name, header = map Text record_keys,
                data_rows = map (map Text \<circ> record_values) rs\<rparr>) \<le> 16384"
    by (simp add: record_keys_def)
  show "worksheet_text v" if "Text v \<in> set (header \<lparr>sheet_name = name, header = map Text record_keys,
                data_rows = map (map Text \<circ> record_values) rs\<rparr>)" for v
    using that by (auto simp: worksheet_text_keys)
  show "worksheet_text v"
    if "row \<in> set (data_rows \<lparr>sheet_name = name, header = map Text record_keys,
                data_rows = map (map Text \<circ> record_values) rs\<rparr>)" "Text v \<in> set row" for row v
  proof -
    from that obtain r where "r \<in> set rs" "v \<in> set (record_values r)" by auto
    then show ?thesis
      using worksheet_dataset_fields [OF assms(1), of r] assms(2)
      by (auto simp: record_values_def)
  qed
qed

lemma agg_min_Min: "vs \<noteq> [] \<Longrightarrow> agg_min vs = Min (set vs)"
  by (cases vs) (simp_all flip: Min.set_eq_fold)

lemma agg_max_Max: "vs \<noteq> [] \<Longrightarrow> agg_max vs = Max (set vs)"
  by (cases vs) (simp_all flip: Max.set_eq_fold)

lemma group_rows_DataFrame:
  "group_rows [0, Suc 0] (map record_values records) [c, sn]
   = map record_values (series_group records c sn)"
  by (simp add: group_rows_def series_group_def cells_at_def record_values_def filter_map comp_def)

lemma series_summary_DataFrame:
  assumes "records \<noteq> []"
  shows "series_summary (DataFrame records)
         = Inr \<lparr>sheet_name = ''Series_Summary'',
                header = map Text [''Category'', ''Series_Name'', ''Survey_Count'', ''First_Year'', ''Last_Year''],
                data_rows = map (\<lambda>k. series_row records (k ! 0) (k ! 1))
                                (sort (remdups (map (\<lambda>r. [Category r, Series_Name r]) records)))\<rparr>"
proof -
  let ?keys = "sort (remdups (map (\<lambda>r. [Category r, Series_Name r]) records))"
  let ?rows = "map record_values records"
  have keys: "group_keys [0, Suc 0] ?rows = ?keys"
    by (simp add: group_keys_def cells_at_def record_values_def comp_def)
  have row: "map Text k @
               [Number (agg_count (map (\<lambda>r. r ! Suc (Suc (Suc 0))) (group_rows [0, Suc 0] ?rows k))),
                Text (agg_min (map (\<lambda>r. r ! Suc (Suc 0)) (group_rows [0, Suc 0] ?rows k))),
                Text (agg_max (map (\<lambda>r. r ! Suc (Suc 0)) (group_rows [0, Suc 0] ?rows k)))]
             = series_row records (k ! 0) (k ! 1)" if "k \<in> set ?keys" for k
  proof -
    from that obtain r where r: "r \<in> set records" and k: "k = [Category r, Series_Name r]"
      by auto
    let ?g = "series_group records (Category r) (Series_Name r)"
    have "r \<in> set ?g" using r by (simp add: series_group_def)
    then have ne: "map Year ?g \<noteq> []" by auto
    have years: "map (\<lambda>r. r ! Suc (Suc 0)) (map record_values ?g) = map Year ?g"
      by (simp add: record_values_def)
    show ?thesis
      unfolding k group_rows_DataFrame years
      using agg_min_Min [OF ne] agg_max_Max [OF ne]
      by (simp add: series_row_def agg_count_def)
  qed
  have "map (\<lambda>k. map Text k @
               [Number (agg_count (map (\<lambda>r. r ! Suc (Suc (Suc 0))) (group_rows [0, Suc 0] ?rows k))),
                Text (agg_min (map (\<lambda>r. r ! Suc (Suc 0)) (group_rows [0, Suc 0] ?rows k))),
                Text (agg_max (map (\<lambda>r. r ! Suc (Suc 0)) (group_rows [0, Suc 0] ?rows k)))]) ?keys
        = map (\<lambda>k. series_row records (k ! 0) (k ! 1)) ?keys"
    by (rule map_cong [OF refl]) (rule row)
  then show ?thesis
    using assms keys
    by (simp add: series_summary_def DataFrame_def record_keys_def)
qed

lemma category_summary_DataFrame:
  assumes "records \<noteq> []"
  shows "\<exists>g h. category_summary (DataFrame records)
              = Inr \<lparr>sheet_name = ''Category_Summary'',
                     header = map Text [''Category'', ''Unique_Series'', ''Total_Surveys''],
                     data_rows = map (\<lambda>k. map Text k @ [Number (g k), Number (h k)])
                                     (sort (remdups (map (\<lambda>r. [Category r]) records)))\<rparr>"
  using assms
  by (intro exI [of _ "\<lambda>k. agg_nunique (map (\<lambda>r. r ! Suc 0)
                         (group_rows [0] (map record_values records) k))"]
            exI [of _ "\<lambda>k. agg_count (map (\<lambda>r. r ! Suc (Suc (Suc 0)))
                         (group_rows [0] (map record_values records) k))"])
     (simp add: category_summary_def DataFrame_def record_keys_def group_keys_def cells_at_def
       record_values_def comp_def)

lemma write_category_table:
  assumes "worksheet_dataset records"
  shows "write_sheet \<lparr>sheet_name = ''Category_Summary'',
                      header = map Text [''Category'', ''Unique_Series'', ''Total_Surveys''],
                      data_rows = map (\<lambda>k. map Text k @ [Number (g k), Number (h k)])
                                      (sort (remdups (map (\<lambda>r. [Category r]) records)))\<rparr>
         = Inr \<lparr>sheet_name = ''Category_Summary'',
                header = map Text [''Category'', ''Unique_Series'', ''Total_Surveys''],
                data_rows = map (\<lambda>k. map Text k @ [Number (g k), Number (h k)])
                                (sort (remdups (map (\<lambda>r. [Category r]) records)))\<rparr>"
proof (rule write_sheet_ok)
  let ?sh = "\<lparr>sheet_name = ''Category_Summary'',
              header = map Text [''Category'', ''Unique_Series'', ''Total_Surveys''],
              data_rows = map (\<lambda>k. map Text k @ [Number (g k), Number (h k)])
                              (sort (remdups (map (\<lambda>r. [Category r]) records)))\<rparr>"
  have "length (remdups (map (\<lambda>r. [Category r]) records)) \<le> length records"
    using length_remdups_leq [of "map (\<lambda>r. [Category r]) records"] by simp
  then show "length (data_rows ?sh) \<le> 1048576"
    using assms by (simp add: worksheet_dataset_def)
  show "length (header ?sh) \<le> 16384" by simp
  show "worksheet_text v" if "Text v \<in> set (header ?sh)" for v
    using that by (auto simp: worksheet_text_def illegal_character_def)
  show "worksheet_text v" if "row \<in> set (data_rows ?sh)" "Text v \<in> set row" for row v
  proof -
    from that obtain r where "r \<in> set records" "v = Category r" by auto
    then show ?thesis using worksheet_dataset_fields(1) [OF assms] by simp
  qed
qed

lemma write_series_table:
  assumes "worksheet_dataset records"
  shows "write_sheet \<lparr>sheet_name = ''Series_Summary'',
                header = map Text [''Category'', ''Series_Name'', ''Survey_Count'', ''First_Year'', ''Last_Year''],
                data_rows = map (\<lambda>k. series_row records (k ! 0) (k ! 1))
                                (sort (remdups (map (\<lambda>r. [Category r, Series_Name r]) records)))\<rparr>
         = Inr \<lparr>sheet_name = ''Series_Summary'',
                header = map Text [''Category'', ''Series_Name'', ''Survey_Count'', ''First_Year'', ''Last_Year''],
                data_rows = map (\<lambda>k. series_row records (k ! 0) (k ! 1))
                                (sort (remdups (map (\<lambda>r. [Category r, Series_Name r]) records)))\<rparr>"
proof (rule write_sheet_ok)
  let ?sh = "\<lparr>sheet_name = ''Series_Summary'',
                header = map Text [''Category'', ''Series_Name'', ''Survey_Count'', ''First_Year'', ''Last_Year''],
                data_rows = map (\<lambda>k. series_row records (k ! 0) (k ! 1))
                                (sort (remdups (map (\<lambda>r. [Category r, Series_Name r]) records)))\<rparr>"
  have "length (remdups (map (\<lambda>r. [Category r, Series_Name r]) records)) \<le> length records"
    using length_remdups_leq [of "map (\<lambda>r. [Category r, Series_Name r]) records"] by simp
  then show "length (data_rows ?sh) \<le> 1048576"
    using assms by (simp add: worksheet_dataset_def)
  show "length (header ?sh) \<le> 16384" by simp
  show "worksheet_text v" if "Text v \<in> set (header ?sh)" for v
    using that by (auto simp: worksheet_text_def illegal_character_def)
  show "worksheet_text v" if "row \<in> set (data_rows ?sh)" "Text v \<in> set row" for row v
  proof -
    from that(1) obtain r where r: "r \<in> set records"
      and row: "row = series_row records (Category r) (Series_Name r)"
      by auto
    let ?g = "series_group records (Category r) (Series_Name r)"
    have "r \<in> set ?g" using r by (simp add: series_group_def)
    then have ne: "set (map Year ?g) \<noteq> {}" by auto
    have sub: "set (map Year ?g) \<subseteq> Year ` set records"
      by (auto simp: series_group_def)
    have "Min (set (map Year ?g)) \<in> set (map Year ?g)" "Max (set (map Year ?g)) \<in> set (map Year ?g)"
      using ne by (auto intro: Min_in Max_in)
    then have "Min (set (map Year ?g)) \<in> Year ` set records"
              "Max (set (map Year ?g)) \<in> Year ` set records"
      using sub by blast+
    then have "worksheet_text (Min (set (map Year ?g)))" "worksheet_text (Max (set (map Year ?g)))"
      using worksheet_dataset_fields(3) [OF assms] by auto
    then show ?thesis
      using that(2) r worksheet_dataset_fields(1,2) [OF assms r]
      unfolding row series_row_def by auto
  qed
qed

text \<open>
  The exporter on a dataset that is not empty and that a workbook can hold: the sheets it
  writes, in order, and the frame it leaves behind in place of its argument.
\<close>

lemma export_DataFrame:
  assumes "records \<noteq> []" and "worksheet_dataset records"
  shows "\<exists>cs. sheet_name cs = ''Category_Summary''
           \<and> export_to_excel (DataFrame records)
               = (Inr ([\<lparr>sheet_name = ''All_Data'', header = map Text record_keys,
                         data_rows = map (map Text) (map record_values records)\<rparr>,
                        cs,
                        \<lparr>sheet_name = ''Series_Summary'',
                         header = map Text [''Category'', ''Series_Name'', ''Survey_Count'',
                                   ''First_Year'', ''Last_Year''],
                         data_rows = map (\<lambda>k. series_row records (k ! 0) (k ! 1))
                           (sort (remdups (map (\<lambda>r. [Category r, Series_Name r]) records)))\<rparr>]
                       @ (if filter (in_duplicate_group records) records = [] then []
                          else [\<lparr>sheet_name = ''Potential_Duplicates'', header = map Text record_keys,
                                 data_rows = map (map Text) (map record_values
                                   (sort_key order_key
                                      (filter (in_duplicate_group records) records)))\<rparr>])),
                  \<lparr>columns = record_keys @ [''Title_Normalized''],
                   rows = map (\<lambda>r. record_values r @ [normalized_title r]) records\<rparr>)"
proof -
  let ?dups = "sort_key order_key (filter (in_duplicate_group records) records)"
  from category_summary_DataFrame [OF assms(1)] obtain g h where
    cs: "category_summary (DataFrame records)
         = Inr \<lparr>sheet_name = ''Category_Summary'',
                header = map Text [''Category'', ''Unique_Series'', ''Total_Surveys''],
                data_rows = map (\<lambda>k. map Text k @ [Number (g k), Number (h k)])
                                (sort (remdups (map (\<lambda>r. [Category r]) records)))\<rparr>"
    by blast
  have ne: "\<not> df_empty (DataFrame records)"
    using assms(1) by (simp add: df_empty_def DataFrame_def record_keys_def)
  have all: "to_excel (DataFrame records) ''All_Data''
             = Inr \<lparr>sheet_name = ''All_Data'', header = map Text record_keys,
                    data_rows = map (map Text) (map record_values records)\<rparr>"
    using to_excel_records [OF assms(2), of records "''All_Data''"] assms(1)
    by (simp add: DataFrame_def)
  have dup: "to_excel \<lparr>columns = record_keys, rows = map record_values ?dups\<rparr>
               ''Potential_Duplicates''
             = Inr \<lparr>sheet_name = ''Potential_Duplicates'', header = map Text record_keys,
                    data_rows = map (map Text) (map record_values ?dups)\<rparr>"
    by (rule to_excel_records [OF assms(2)]) (simp_all add: le_trans [OF length_filter_le])
  have emp: "df_empty \<lparr>columns = record_keys, rows = map record_values ds\<rparr> \<longleftrightarrow> ds = []"
    for ds :: "string survey_record list"
    by (simp add: df_empty_def record_keys_def)
  have ds: "?dups = [] \<longleftrightarrow> filter (in_duplicate_group records) records = []"
    by (metis length_0_conv length_sort)
  have "export_to_excel (DataFrame records)
               = (Inr ([\<lparr>sheet_name = ''All_Data'', header = map Text record_keys,
                         data_rows = map (map Text) (map record_values records)\<rparr>,
                        \<lparr>sheet_name = ''Category_Summary'',
                         header = map Text [''Category'', ''Unique_Series'', ''Total_Surveys''],
                         data_rows = map (\<lambda>k. map Text k @ [Number (g k), Number (h k)])
                                (sort (remdups (map (\<lambda>r. [Category r]) records)))\<rparr>,
                        \<lparr>sheet_name = ''Series_Summary'',
                         header = map Text [''Category'', ''Series_Name'', ''Survey_Count'',
                                   ''First_Year'', ''Last_Year''],
                         data_rows = map (\<lambda>k. series_row records (k ! 0) (k ! 1))
                           (sort (remdups (map (\<lambda>r. [Category r, Series_Name r]) records)))\<rparr>]
                       @ (if filter (in_duplicate_group records) records = [] then []
                          else [\<lparr>sheet_name = ''Potential_Duplicates'', header = map Text record_keys,
                                 data_rows = map (map Text) (map record_values ?dups)\<rparr>])),
                  \<lparr>columns = record_keys @ [''Title_Normalized''],
                   rows = map (\<lambda>r. record_values r @ [normalized_title r]) records\<rparr>)"
    unfolding export_to_excel_def
    by (simp only: all ne if_False cs write_category_table [OF assms(2)]
          series_summary_DataFrame [OF assms(1)] write_series_table [OF assms(2)]
          find_duplicates_DataFrame [OF assms(1)] sum.case prod.case emp ds dup)
       simp
  then show ?thesis
    by (intro exI [of _ "\<lparr>sheet_name = ''Category_Summary'',
                         header = map Text [''Category'', ''Unique_Series'', ''Total_Surveys''],
                         data_rows = map (\<lambda>k. map Text k @ [Number (g k), Number (h k)])
                                (sort (remdups (map (\<lambda>r. [Category r]) records)))\<rparr>"]) simp
qed

lemma sheet_named_export:
  assumes "records \<noteq> []" and "worksheet_dataset records"
  obtains wb where
    "fst (export_to_excel (DataFrame records)) = Inr wb"
    "sheet_named ''All_Data'' wb
       = Some \<lparr>sheet_name = ''All_Data'', header = map Text record_keys,
               data_rows = map (map Text) (map record_values records)\<rparr>"
    "sheet_named ''Series_Summary'' wb
       = Some \<lparr>sheet_name = ''Series_Summary'',
               header = map Text [''Category'', ''Series_Name'', ''Survey_Count'', ''First_Year'', ''Last_Year''],
               data_rows = map (\<lambda>k. series_row records (k ! 0) (k ! 1))
                 (sort (remdups (map (\<lambda>r. [Category r, Series_Name r]) records)))\<rparr>"
    "sheet_named ''Potential_Duplicates'' wb \<noteq> None
       \<longleftrightarrow> filter (in_duplicate_group records) records \<noteq> []"
proof -
  from export_DataFrame [OF assms] obtain cs where
    cs: "sheet_name cs = ''Category_Summary''" and
    ex: "export_to_excel (DataFrame records)
               = (Inr ([\<lparr>sheet_name = ''All_Data'', header = map Text record_keys,
                         data_rows = map (map Text) (map record_values records)\<rparr>,
                        cs,
                        \<lparr>sheet_name = ''Series_Summary'',
                         header = map Text [''Category'', ''Series_Name'', ''Survey_Count'',
                                   ''First_Year'', ''Last_Year''],
                         data_rows = map (\<lambda>k. series_row records (k ! 0) (k ! 1))
                           (sort (remdups (map (\<lambda>r. [Category r, Series_Name r]) records)))\<rparr>]
                       @ (if filter (in_duplicate_group records) records = [] then []
                          else [\<lparr>sheet_name = ''Potential_Duplicates'', header = map Text record_keys,
                                 data_rows = map (map Text) (map record_values
                                   (sort_key order_key
                                      (filter (in_duplicate_group records) records)))\<rparr>])),
                  \<lparr>columns = record_keys @ [''Title_Normalized''],
                   rows = map (\<lambda>r. record_values r @ [normalized_title r]) records\<rparr>)"
    by blast
  show thesis
    by (rule that [OF ex [THEN arg_cong [of _ _ fst], simplified fst_conv]])
       (simp_all add: sheet_named_def cs)
qed







text \<open>
  C7, as stated, fails: the frame of no records has no column, so the sheet \<^verbatim>\<open>All_Data\<close>
  written for it has no header row either; the sheet has no cell.
\<close>

theorem export_of_no_records_has_no_header:
  "export_to_excel (DataFrame [])
   = (Inr [\<lparr>sheet_name = ''All_Data'', header = [], data_rows = []\<rparr>], DataFrame [])"
  by (simp add: export_to_excel_def to_excel_def write_sheet_def df_empty_def DataFrame_def)

text \<open>
  C7, amended: for a frame without rows (whose labels a worksheet can store) the exporter
  writes one sheet, \<^verbatim>\<open>All_Data\<close>, with no data row and with the frame's column labels as its
  header row; the frame of no records has no label, and its sheet no cell. No summary sheet
  and no duplicates sheet is written. For every dataset that a workbook can hold, the sheet
  \<^verbatim>\<open>Potential_Duplicates\<close> is in the workbook if and only if some record of the dataset is
  in a duplicate group.
\<close>

theorem export_empty_dataset:
  "(rows df = [] \<and> length (columns df) \<le> 16384 \<and> list_all worksheet_text (columns df)
      \<longrightarrow> export_to_excel df
          = (Inr [\<lparr>sheet_name = ''All_Data'', header = map Text (columns df), data_rows = []\<rparr>], df))
   \<and> fst (export_to_excel (DataFrame [])) = Inr [\<lparr>sheet_name = ''All_Data'', header = [], data_rows = []\<rparr>]
   \<and> (worksheet_dataset records
        \<longrightarrow> (\<exists>wb. fst (export_to_excel (DataFrame records)) = Inr wb
               \<and> (sheet_named ''Potential_Duplicates'' wb \<noteq> None
                    \<longleftrightarrow> (\<exists>r \<in> set records. in_duplicate_group records r))))"
proof (intro conjI impI)
  assume a: "rows df = [] \<and> length (columns df) \<le> 16384 \<and> list_all worksheet_text (columns df)"
  have "write_sheet \<lparr>sheet_name = ''All_Data'', header = map Text (columns df), data_rows = []\<rparr>
        = Inr \<lparr>sheet_name = ''All_Data'', header = map Text (columns df), data_rows = []\<rparr>"
    using a by (intro write_sheet_ok) (auto simp: list_all_iff)
  then show "export_to_excel df
          = (Inr [\<lparr>sheet_name = ''All_Data'', header = map Text (columns df), data_rows = []\<rparr>], df)"
    using a by (simp add: export_to_excel_def df_empty_def to_excel_def)
next
  show e: "fst (export_to_excel (DataFrame []))
        = Inr [\<lparr>sheet_name = ''All_Data'', header = [], data_rows = []\<rparr>]"
    by (simp add: export_to_excel_def to_excel_def write_sheet_def df_empty_def DataFrame_def)
  assume w: "worksheet_dataset records"
  show "\<exists>wb. fst (export_to_excel (DataFrame records)) = Inr wb
           \<and> (sheet_named ''Potential_Duplicates'' wb \<noteq> None
                \<longleftrightarrow> (\<exists>r \<in> set records. in_duplicate_group records r))"
  proof (cases "records = []")
    case True
    then show ?thesis
      using e by (simp add: sheet_named_def)
  next
    case False
    from False w obtain wb where
      "fst (export_to_excel (DataFrame records)) = Inr wb"
      "sheet_named ''Potential_Duplicates'' wb \<noteq> None
         \<longleftrightarrow> filter (in_duplicate_group records) records \<noteq> []"
      by (rule sheet_named_export)
    then show ?thesis
      by (auto simp: filter_empty_conv)
  qed
qed

text \<open>
  C7, amended, at a frame with the five columns and no row (its sheet has the header row
  and nothing else), and at a dataset of two equal records.
\<close>

theorem export_empty_dataset_witness:
  "export_to_excel \<lparr>columns = record_keys, rows = []\<rparr>
     = (Inr [\<lparr>sheet_name = ''All_Data'', header = map Text record_keys, data_rows = []\<rparr>],
        \<lparr>columns = record_keys, rows = []\<rparr>)
   \<and> (\<exists>wb. fst (export_to_excel (DataFrame
          [\<lparr>Category = ''Health'', Series_Name = ''LFS'', Year = ''2001'',
            Survey_Title = ''LFS 2001 Wave 1'', URI = ''/a''\<rparr>,
           \<lparr>Category = ''Health'', Series_Name = ''LFS'', Year = ''2001'',
            Survey_Title = ''LFS 2001 Wave 1'', URI = ''/a''\<rparr>])) = Inr wb
        \<and> sheet_named ''Potential_Duplicates'' wb \<noteq> None)"
proof -
  let ?c = "\<lparr>columns = record_keys, rows = ([] :: string list list)\<rparr>"
  let ?a = "\<lparr>Category = ''Health'', Series_Name = ''LFS'', Year = ''2001'',
            Survey_Title = ''LFS 2001 Wave 1'', URI = ''/a''\<rparr>"
  have h1: "rows ?c = [] \<and> length (columns ?c) \<le> 16384 \<and> list_all worksheet_text (columns ?c)"
    by (simp add: list_all_iff worksheet_text_keys) (simp add: record_keys_def)
  have h2: "worksheet_dataset [?a, ?a]" 
    by (simp add: worksheet_dataset_def worksheet_record_def record_values_def worksheet_text_def
        illegal_character_def)
  have h3: "\<exists>r \<in> set [?a, ?a]. in_duplicate_group [?a, ?a] r"
    by (simp add: in_duplicate_group_def)
  show ?thesis
    using h1 h2 h3 export_empty_dataset [of ?c "[?a, ?a]"]
    by simp
qed

end
